theory Spec2Isabelle
  imports Main "HOL-Library.Word" "HOL-Library.Multiset"
begin

section \<open>Patient-portal document service: a shallow embedding of the backend\<close>

text \<open>
  The backend source holds two servers with the same four routes
  (\<^verbatim>\<open>POST /documents/upload\<close>, \<^verbatim>\<open>GET /documents\<close>, \<^verbatim>\<open>GET /documents/:id\<close>,
  \<^verbatim>\<open>DELETE /documents/:id\<close>):
  \<^item> the in-memory variant keeps \<^verbatim>\<open>let documents = []; let nextId = 1\<close> and stores
    each file's buffer in the array;
  \<^item> the sqlite variant keeps a \<^verbatim>\<open>documents\<close> table and writes each file under
    the uploads directory.

  Both are modelled by explicit state passing: a handler takes the state and returns
  the response together with the new state. What the handlers read from their
  environment (the clock, the random file-name suffix, whether a database or file
  system call fails) is an explicit argument.

  JavaScript numbers are modelled by \<^typ>\<open>int\<close> and \<^typ>\<open>nat\<close>: every number that occurs
  (ids, sizes, parsed path parameters compared with ids) is an integer, and integers are
  exact in a double below \<open>2 ^ 53\<close>. Strings are lists of 8-bit code units.
\<close>

subsection \<open>JavaScript built-ins used by the handlers\<close>

text \<open>
  \<^verbatim>\<open>parseInt(string)\<close> without a radix: skip leading white space, read an optional sign,
  switch to radix 16 after a \<^verbatim>\<open>0x\<close> or \<^verbatim>\<open>0X\<close> prefix, read the longest run of digits
  of the radix, and answer \<^verbatim>\<open>NaN\<close> (here \<open>None\<close>) when that run is empty.
\<close>

definition is_ws :: "char \<Rightarrow> bool" where
  "is_ws c = (of_char c \<in> {9, 10, 11, 12, 13, 32, 160 :: nat})"

definition digit_val :: "char \<Rightarrow> nat option" where
  "digit_val c =
     (let n = (of_char c :: nat) in
      if 48 \<le> n \<and> n \<le> 57 then Some (n - 48)
      else if 97 \<le> n \<and> n \<le> 122 then Some (n - 87)
      else if 65 \<le> n \<and> n \<le> 90 then Some (n - 55)
      else None)"

definition is_digit :: "nat \<Rightarrow> char \<Rightarrow> bool" where
  "is_digit radix c = (case digit_val c of None \<Rightarrow> False | Some v \<Rightarrow> v < radix)"

definition digits_value :: "nat \<Rightarrow> string \<Rightarrow> nat" where
  "digits_value radix ds =
     foldl (\<lambda>acc c. acc * radix + (case digit_val c of None \<Rightarrow> 0 | Some v \<Rightarrow> v)) 0 ds"

definition strip_sign :: "string \<Rightarrow> int \<times> string" where
  "strip_sign s =
     (case s of
        [] \<Rightarrow> (1, s)
      | c # r \<Rightarrow> if c = CHR ''-'' then (- 1, r) else if c = CHR ''+'' then (1, r) else (1, s))"

definition strip_radix :: "string \<Rightarrow> nat \<times> string" where
  "strip_radix s =
     (case s of
        c # d # r \<Rightarrow>
          if c = CHR ''0'' \<and> (d = CHR ''x'' \<or> d = CHR ''X'') then (16, r) else (10, s)
      | _ \<Rightarrow> (10, s))"

definition parseInt :: "string \<Rightarrow> int option" where
  "parseInt inputString =
     (let (sign, s2) = strip_sign (dropWhile is_ws inputString);
          (radix, s3) = strip_radix s2;
          ds = takeWhile (is_digit radix) s3
      in if ds = [] then None else Some (sign * int (digits_value radix ds)))"

text \<open>
  \<^verbatim>\<open>Array.prototype.findIndex\<close> answers the first index whose element satisfies the
  predicate and \<open>-1\<close> when there is none; \<^verbatim>\<open>splice(index, 1)\<close> removes the element
  at that index. \<^verbatim>\<open>Array.prototype.find\<close> is \<^const>\<open>List.find\<close>.
\<close>

fun findIndex :: "('a \<Rightarrow> bool) \<Rightarrow> 'a list \<Rightarrow> int" where
  "findIndex P [] = - 1"
| "findIndex P (x # xs) =
     (if P x then 0 else (let r = findIndex P xs in if r = - 1 then - 1 else r + 1))"

definition splice1 :: "int \<Rightarrow> 'a list \<Rightarrow> 'a list" where
  "splice1 index xs = take (nat index) xs @ drop (nat index + 1) xs"

subsection \<open>Requests, responses and errors\<close>

type_synonym bytes = "8 word list"

text \<open>
  A creation time is text. \<^verbatim>\<open>new Date().toISOString()\<close> gives
  \<^verbatim>\<open>YYYY-MM-DDTHH:mm:ss.sssZ\<close> for the millisecond it is called at; sqlite's
  \<^verbatim>\<open>CURRENT_TIMESTAMP\<close> gives \<^verbatim>\<open>YYYY-MM-DD HH:MM:SS\<close> for the second. The model keeps
  which of the two formats a text has and the instant it renders, so that two texts are
  equal exactly when the constructors and the instants are.
\<close>

datatype timestamp =
    IsoString nat
  | SqlDatetime nat

record doc_json =
  json_id :: int
  json_filename :: string
  json_filesize :: nat
  json_created_at :: timestamp

record row =
  row_id :: int
  row_filename :: string
  filepath :: string
  row_filesize :: nat
  row_created_at :: timestamp

datatype body =
    Msg bool string
  | UploadedDoc bool string doc_json
  | DocList bool "doc_json list"
  | RowList bool "row list"
  | SendFile "(string \<times> string) list" bytes

datatype response = Response nat body

datatype js_error =
    MulterError string string
  | Error string

text \<open>One file part of the multipart body, as multer reports it to the file filter.\<close>

record part =
  part_fieldname :: string
  part_filename :: string
  part_mimetype :: string
  part_data :: bytes

datatype 'f multer_result =
    Next "'f option"
  | NextErr js_error

text \<open>The \<^verbatim>\<open>fileFilter\<close> option, the same in both variants: \<open>None\<close> accepts the file.\<close>

definition fileFilter :: "part \<Rightarrow> js_error option" where
  "fileFilter file =
     (if part_mimetype file = ''application/pdf'' then None
      else Some (Error ''Only PDF files are allowed''))"

text \<open>
  \<^verbatim>\<open>limits.fileSize: parseInt(process.env.MAX_FILE_SIZE) || 10 * 1024 * 1024\<close>: an unset
  variable parses to \<^verbatim>\<open>NaN\<close>, and \<^verbatim>\<open>NaN\<close> and \<open>0\<close> are falsy.
\<close>

definition fileSize_limit :: "string option \<Rightarrow> int" where
  "fileSize_limit MAX_FILE_SIZE =
     (case (case MAX_FILE_SIZE of None \<Rightarrow> None | Some s \<Rightarrow> parseInt s) of
        None \<Rightarrow> 10 * 1024 * 1024
      | Some n \<Rightarrow> if n = 0 then 10 * 1024 * 1024 else n)"

text \<open>The error-handling middleware, the same in both variants.\<close>

fun errorMiddleware :: "js_error \<Rightarrow> response" where
  "errorMiddleware (MulterError code msg) =
     (if code = ''LIMIT_FILE_SIZE''
      then Response 400 (Msg False ''File too large. Maximum size is 10MB.'')
      else if msg = ''Only PDF files are allowed'' then Response 400 (Msg False msg)
      else Response 500 (Msg False (if msg = [] then ''Internal server error'' else msg)))"
| "errorMiddleware (Error msg) =
     (if msg = ''Only PDF files are allowed'' then Response 400 (Msg False msg)
      else Response 500 (Msg False (if msg = [] then ''Internal server error'' else msg)))"

text \<open>
  How multer's parser (busboy) applies \<^verbatim>\<open>limits.fileSize\<close> to the bytes of a file:
  it passes on at most as many bytes as the limit leaves room for, and signals the
  limit, which multer turns into \<^verbatim>\<open>LIMIT_FILE_SIZE\<close>, as soon as the bytes received
  reach the limit. So a file as long as the limit or longer is refused (\<open>None\<close>) and a
  shorter one is stored whole. Under a negative limit no byte is passed on and the limit
  is never reached: the upload is accepted with an empty file.
\<close>

definition busboy_file :: "int \<Rightarrow> bytes \<Rightarrow> bytes option" where
  "busboy_file limit data =
     (if limit < 0 then Some []
      else if data \<noteq> [] \<and> limit \<le> int (length data) then None
      else Some data)"

text \<open>
  \<^verbatim>\<open>res.setHeader(name, value)\<close> throws a \<^verbatim>\<open>TypeError\<close> when the value holds a
  character outside tab, \<^verbatim>\<open>0x20\<close>..\<^verbatim>\<open>0x7e\<close> and \<^verbatim>\<open>0x80\<close>..\<^verbatim>\<open>0xff\<close>. The download
  handlers put the stored file name into the \<^verbatim>\<open>Content-Disposition\<close> value.
\<close>

definition invalid_header_char :: "char \<Rightarrow> bool" where
  "invalid_header_char c =
     (let n = (of_char c :: nat) in n < 9 \<or> (9 < n \<and> n < 32) \<or> n = 127)"

definition setHeader_throws :: "string \<Rightarrow> bool" where
  "setHeader_throws v = list_ex invalid_header_char v"

definition content_disposition :: "string \<Rightarrow> string" where
  "content_disposition name = ''attachment; filename='' @ [CHR 0x22] @ name @ [CHR 0x22]"

definition invalid_header_message :: string where
  "invalid_header_message =
     ''Invalid character in header content ['' @ [CHR 0x22] @
     ''Content-Disposition'' @ [CHR 0x22] @ '']''"

definition invalid_header_error :: js_error where
  "invalid_header_error = Error invalid_header_message"

definition download_headers :: "string \<Rightarrow> (string \<times> string) list" where
  "download_headers name =
     [(''Content-Type'', ''application/pdf''),
      (''Content-Disposition'', content_disposition name)]"

subsection \<open>The in-memory variant\<close>

record document =
  doc_id :: int
  filename :: string
  filesize :: nat
  buffer :: bytes
  created_at :: timestamp

record mem_state =
  documents :: "document list"
  nextId :: int

definition init_state :: mem_state where
  "init_state = \<lparr>documents = [], nextId = 1\<rparr>"

record req_file =
  file_originalname :: string
  file_mimetype :: string
  file_size :: nat
  file_buffer :: bytes

text \<open>
  \<^verbatim>\<open>upload.single('document')\<close> with \<^verbatim>\<open>multer.memoryStorage()\<close>. Multer is a library
  outside the source; the model follows what it does: a part without a file name is
  skipped, a file in another field is \<^verbatim>\<open>LIMIT_UNEXPECTED_FILE\<close>, the file filter runs
  before any byte is stored, a file that reaches \<^verbatim>\<open>limits.fileSize\<close> is
  \<^verbatim>\<open>LIMIT_FILE_SIZE\<close>, and the buffer and the size of an accepted file are the bytes
  that the parser passed on. The argument is the file part of the request, if any.
\<close>

definition multer_memory :: "string option \<Rightarrow> part option \<Rightarrow> req_file multer_result" where
  "multer_memory MAX_FILE_SIZE p =
     (case p of
        None \<Rightarrow> Next None
      | Some file \<Rightarrow>
          if part_filename file = [] then Next None
          else if part_fieldname file \<noteq> ''document''
          then NextErr (MulterError ''LIMIT_UNEXPECTED_FILE'' ''Unexpected field'')
          else (case fileFilter file of
                  Some e \<Rightarrow> NextErr e
                | None \<Rightarrow>
                    (case busboy_file (fileSize_limit MAX_FILE_SIZE) (part_data file) of
                       None \<Rightarrow> NextErr (MulterError ''LIMIT_FILE_SIZE'' ''File too large'')
                     | Some stored \<Rightarrow>
                         Next (Some \<lparr>file_originalname = part_filename file,
                                      file_mimetype = part_mimetype file,
                                      file_size = length stored,
                                      file_buffer = stored\<rparr>))))"

definition to_json :: "document \<Rightarrow> doc_json" where
  "to_json doc = \<lparr>json_id = doc_id doc, json_filename = filename doc,
                  json_filesize = filesize doc, json_created_at = created_at doc\<rparr>"

text \<open>The route handler of \<^verbatim>\<open>POST /documents/upload\<close>; \<open>now\<close> is the clock in ms.\<close>

definition upload_handler :: "nat \<Rightarrow> req_file option \<Rightarrow> mem_state \<Rightarrow> response \<times> mem_state" where
  "upload_handler now file st =
     (case file of
        None \<Rightarrow> (Response 400 (Msg False ''No file uploaded or invalid file type''), st)
      | Some f \<Rightarrow>
          (let document = \<lparr>doc_id = nextId st,
                           filename = file_originalname f,
                           filesize = file_size f,
                           buffer = file_buffer f,
                           created_at = IsoString now\<rparr>
           in (Response 200 (UploadedDoc True ''File uploaded successfully'' (to_json document)),
               st\<lparr>documents := documents st @ [document], nextId := nextId st + 1\<rparr>)))"

definition post_upload ::
  "string option \<Rightarrow> nat \<Rightarrow> part option \<Rightarrow> mem_state \<Rightarrow> response \<times> mem_state" where
  "post_upload MAX_FILE_SIZE now p st =
     (case multer_memory MAX_FILE_SIZE p of
        NextErr e \<Rightarrow> (errorMiddleware e, st)
      | Next file \<Rightarrow> upload_handler now file st)"

definition get_documents :: "mem_state \<Rightarrow> response" where
  "get_documents st = Response 200 (DocList True (map to_json (documents st)))"

text \<open>
  The route handler of \<^verbatim>\<open>GET /documents/:id\<close>. It runs synchronously, so Express
  catches what it throws and hands it to the error middleware: the result of the
  handler is either the error thrown or the response it built.
\<close>

definition get_document_handler :: "string \<Rightarrow> mem_state \<Rightarrow> js_error + response" where
  "get_document_handler idParam st =
     (let documentId = parseInt idParam in
      case find (\<lambda>doc. Some (doc_id doc) = documentId) (documents st) of
        None \<Rightarrow> Inr (Response 404 (Msg False ''Document not found''))
      | Some document \<Rightarrow>
          if setHeader_throws (content_disposition (filename document))
          then Inl invalid_header_error
          else Inr (Response 200
                 (SendFile (download_headers (filename document)) (buffer document))))"

definition get_document :: "string \<Rightarrow> mem_state \<Rightarrow> response" where
  "get_document idParam st =
     (case get_document_handler idParam st of
        Inl e \<Rightarrow> errorMiddleware e
      | Inr resp \<Rightarrow> resp)"

definition delete_document :: "string \<Rightarrow> mem_state \<Rightarrow> response \<times> mem_state" where
  "delete_document idParam st =
     (let documentId = parseInt idParam;
          index = findIndex (\<lambda>doc. Some (doc_id doc) = documentId) (documents st)
      in if index = - 1
         then (Response 404 (Msg False ''Document not found''), st)
         else (Response 200 (Msg True ''Document deleted successfully''),
               st\<lparr>documents := splice1 index (documents st)\<rparr>))"

datatype request =
    POST_upload nat "part option"
  | GET_documents
  | GET_document string
  | DELETE_document string

fun handle :: "string option \<Rightarrow> request \<Rightarrow> mem_state \<Rightarrow> response \<times> mem_state" where
  "handle env (POST_upload now p) st = post_upload env now p st"
| "handle env GET_documents st = (get_documents st, st)"
| "handle env (GET_document i) st = (get_document i st, st)"
| "handle env (DELETE_document i) st = delete_document i st"

text \<open>Serving a sequence of requests, one after the other, from a given state.\<close>

fun serve :: "string option \<Rightarrow> request list \<Rightarrow> mem_state \<Rightarrow> response list \<times> mem_state" where
  "serve env [] st = ([], st)"
| "serve env (r # rs) st =
     (let (resp, st1) = handle env r st;
          (resps, st2) = serve env rs st1
      in (resp # resps, st2))"

text \<open>The ids that a sequence of responses reports as newly assigned, in order.\<close>

fun assigned_id :: "response \<Rightarrow> int list" where
  "assigned_id (Response code (UploadedDoc ok msg d)) = [json_id d]"
| "assigned_id (Response code other) = []"

definition assigned_ids :: "response list \<Rightarrow> int list" where
  "assigned_ids resps = concat (map assigned_id resps)"

subsection \<open>The sqlite variant\<close>

text \<open>
  The table \<^verbatim>\<open>documents\<close> is the list of its rows in rowid order; \<open>seq\<close> is the largest
  rowid the table has ever held, which \<^verbatim>\<open>INTEGER PRIMARY KEY AUTOINCREMENT\<close> keeps in
  \<^verbatim>\<open>sqlite_sequence\<close>; \<open>files\<close> is the file system, from paths to contents.
\<close>

record disk_state =
  rows :: "row list"
  seq :: int
  files :: "string \<Rightarrow> bytes option"

text \<open>
  What is configured outside the handlers: the uploads directory, the environment's
  \<^verbatim>\<open>MAX_FILE_SIZE\<close>, and how the database engine compares the TEXT parameter of
  \<^verbatim>\<open>WHERE id = ?\<close> with the integer column: \<open>text_as_id s = Some i\<close> when the text
  \<open>s\<close> is equal to the integer \<open>i\<close> for the engine, \<open>None\<close> when it is equal to none.
\<close>

record disk_config =
  uploadsDir :: string
  max_file_size :: "string option"
  text_as_id :: "string \<Rightarrow> int option"

text \<open>
  What one upload reads from its environment: the value of
  \<^verbatim>\<open>Date.now() + '-' + Math.round(Math.random() * 1E9)\<close>, the message of the error
  with which opening the destination file fails (if it does), whether the
  \<^verbatim>\<open>INSERT\<close> fails, the second at which the engine evaluates
  \<^verbatim>\<open>CURRENT_TIMESTAMP\<close>, and the millisecond of \<^verbatim>\<open>new Date()\<close> in the callback.
\<close>

record upload_env =
  uniqueSuffix :: string
  write_error :: "string option"
  insert_error :: bool
  current_timestamp :: nat
  response_time :: nat

record disk_file =
  disk_filename :: string
  disk_path :: string
  disk_size :: nat
  disk_originalname :: string

text \<open>
  The \<^verbatim>\<open>filename\<close> callback of \<^verbatim>\<open>multer.diskStorage\<close>, and the path that results
  under the \<^verbatim>\<open>destination\<close>, the uploads directory.
\<close>

definition storage_filename :: "upload_env \<Rightarrow> part \<Rightarrow> string" where
  "storage_filename env file = uniqueSuffix env @ ''-'' @ part_filename file"

definition storage_path :: "disk_config \<Rightarrow> upload_env \<Rightarrow> part \<Rightarrow> string" where
  "storage_path cfg env file = uploadsDir cfg @ ''/'' @ storage_filename env file"

text \<open>
  \<^verbatim>\<open>upload.single('document')\<close> with \<^verbatim>\<open>multer.diskStorage\<close>: as in memory, but the
  bytes that the parser passes on are written to the storage path, and a file that
  reached the size limit is removed again after the partial write.
\<close>

definition multer_disk ::
  "disk_config \<Rightarrow> upload_env \<Rightarrow> part option \<Rightarrow> (string \<Rightarrow> bytes option)
     \<Rightarrow> disk_file multer_result \<times> (string \<Rightarrow> bytes option)" where
  "multer_disk cfg env p fs =
     (case p of
        None \<Rightarrow> (Next None, fs)
      | Some file \<Rightarrow>
          if part_filename file = [] then (Next None, fs)
          else if part_fieldname file \<noteq> ''document''
          then (NextErr (MulterError ''LIMIT_UNEXPECTED_FILE'' ''Unexpected field''), fs)
          else (case fileFilter file of
                  Some e \<Rightarrow> (NextErr e, fs)
                | None \<Rightarrow>
                    (case write_error env of
                       Some msg \<Rightarrow> (NextErr (Error msg), fs)
                     | None \<Rightarrow>
                         (case busboy_file (fileSize_limit (max_file_size cfg))
                                 (part_data file) of
                            None \<Rightarrow>
                              (NextErr (MulterError ''LIMIT_FILE_SIZE'' ''File too large''),
                               fs(storage_path cfg env file := None))
                          | Some stored \<Rightarrow>
                              (Next (Some \<lparr>disk_filename = storage_filename env file,
                                           disk_path = storage_path cfg env file,
                                           disk_size = length stored,
                                           disk_originalname = part_filename file\<rparr>),
                               fs(storage_path cfg env file \<mapsto> stored))))))"

definition disk_upload_handler ::
  "upload_env \<Rightarrow> disk_file option \<Rightarrow> disk_state \<Rightarrow> response \<times> disk_state" where
  "disk_upload_handler env file st =
     (case file of
        None \<Rightarrow> (Response 400 (Msg False ''No file uploaded or invalid file type''), st)
      | Some f \<Rightarrow>
          if insert_error env
          then (Response 500 (Msg False ''Failed to save document metadata''), st)
          else (let lastID = seq st + 1;
                    new_row = \<lparr>row_id = lastID,
                               row_filename = disk_originalname f,
                               filepath = disk_path f,
                               row_filesize = disk_size f,
                               row_created_at = SqlDatetime (current_timestamp env)\<rparr>
                in (Response 200 (UploadedDoc True ''File uploaded successfully''
                      \<lparr>json_id = lastID,
                       json_filename = disk_originalname f,
                       json_filesize = disk_size f,
                       json_created_at = IsoString (response_time env)\<rparr>),
                    st\<lparr>rows := rows st @ [new_row], seq := lastID\<rparr>)))"

definition disk_post_upload ::
  "disk_config \<Rightarrow> upload_env \<Rightarrow> part option \<Rightarrow> disk_state \<Rightarrow> response \<times> disk_state" where
  "disk_post_upload cfg env p st =
     (case multer_disk cfg env p (files st) of
        (NextErr e, fs) \<Rightarrow> (errorMiddleware e, st\<lparr>files := fs\<rparr>)
      | (Next file, fs) \<Rightarrow> disk_upload_handler env file (st\<lparr>files := fs\<rparr>))"

text \<open>
  \<^verbatim>\<open>ORDER BY created_at DESC\<close> compares the texts. For two texts of the same format
  that is the order of their instants; a \<^verbatim>\<open>CURRENT_TIMESTAMP\<close> text and an ISO text
  of the same day differ first where one has a blank and the other a \<^verbatim>\<open>T\<close>. SQL
  leaves the order of rows with equal keys open; the model keeps them in rowid order.
\<close>

fun created_text_less :: "timestamp \<Rightarrow> timestamp \<Rightarrow> bool" where
  "created_text_less (SqlDatetime a) (SqlDatetime b) = (a < b)"
| "created_text_less (IsoString a) (IsoString b) = (a < b)"
| "created_text_less (SqlDatetime a) (IsoString b) = (a div 86400 \<le> b div 86400000)"
| "created_text_less (IsoString a) (SqlDatetime b) = (a div 86400000 < b div 86400)"

fun insert_desc :: "row \<Rightarrow> row list \<Rightarrow> row list" where
  "insert_desc r [] = [r]"
| "insert_desc r (x # xs) =
     (if created_text_less (row_created_at r) (row_created_at x)
      then x # insert_desc r xs else r # x # xs)"

fun order_by_created_at_desc :: "row list \<Rightarrow> row list" where
  "order_by_created_at_desc [] = []"
| "order_by_created_at_desc (r # rs) = insert_desc r (order_by_created_at_desc rs)"

definition disk_get_documents :: "bool \<Rightarrow> disk_state \<Rightarrow> response" where
  "disk_get_documents err st =
     (if err then Response 500 (Msg False ''Failed to retrieve documents'')
      else Response 200 (RowList True (order_by_created_at_desc (rows st))))"

text \<open>
  The download of the sqlite variant runs inside the callback of \<^verbatim>\<open>db.get\<close>, where
  nothing catches an exception: when \<^verbatim>\<open>setHeader\<close> throws, no response is sent
  (the result \<open>None\<close>) and the process ends; the table and the files stay as they are.
\<close>

definition disk_get_document ::
  "disk_config \<Rightarrow> bool \<Rightarrow> string \<Rightarrow> disk_state \<Rightarrow> response option" where
  "disk_get_document cfg err documentId st =
     (if err then Some (Response 500 (Msg False ''Database error''))
      else case find (\<lambda>r. text_as_id cfg documentId = Some (row_id r)) (rows st) of
        None \<Rightarrow> Some (Response 404 (Msg False ''Document not found''))
      | Some row \<Rightarrow>
          (case files st (filepath row) of
             None \<Rightarrow> Some (Response 404 (Msg False ''File not found on disk''))
           | Some data \<Rightarrow>
               if setHeader_throws (content_disposition (row_filename row)) then None
               else Some (Response 200 (SendFile (download_headers (row_filename row)) data))))"

text \<open>
  What one delete reads from its environment: whether the \<^verbatim>\<open>SELECT\<close> fails, whether
  \<^verbatim>\<open>fs.unlinkSync\<close> throws, and whether the \<^verbatim>\<open>DELETE\<close> fails. An exception of
  \<^verbatim>\<open>unlinkSync\<close> is thrown inside the database callback, where nothing catches it:
  no response is sent, which is the result \<open>None\<close>.
\<close>

record delete_env =
  select_error :: bool
  unlink_throws :: bool
  delete_error :: bool

definition disk_delete_document ::
  "disk_config \<Rightarrow> delete_env \<Rightarrow> string \<Rightarrow> disk_state \<Rightarrow> response option \<times> disk_state" where
  "disk_delete_document cfg env documentId st =
     (if select_error env then (Some (Response 500 (Msg False ''Database error'')), st)
      else case find (\<lambda>r. text_as_id cfg documentId = Some (row_id r)) (rows st) of
        None \<Rightarrow> (Some (Response 404 (Msg False ''Document not found'')), st)
      | Some row \<Rightarrow>
          if files st (filepath row) \<noteq> None \<and> unlink_throws env then (None, st)
          else (let st1 = (if files st (filepath row) \<noteq> None
                           then st\<lparr>files := (files st)(filepath row := None)\<rparr> else st)
                in if delete_error env
                   then (Some (Response 500 (Msg False ''Failed to delete document from database'')),
                         st1)
                   else (Some (Response 200 (Msg True ''Document deleted successfully'')),
                         st1\<lparr>rows := filter (\<lambda>r. text_as_id cfg documentId \<noteq> Some (row_id r))
                                              (rows st1)\<rparr>)))"

datatype disk_request =
    Disk_upload upload_env "part option"
  | Disk_list bool
  | Disk_download bool string
  | Disk_delete delete_env string

fun disk_handle ::
  "disk_config \<Rightarrow> disk_request \<Rightarrow> disk_state \<Rightarrow> response option \<times> disk_state" where
  "disk_handle cfg (Disk_upload env p) st =
     (case disk_post_upload cfg env p st of (resp, st1) \<Rightarrow> (Some resp, st1))"
| "disk_handle cfg (Disk_list err) st = (Some (disk_get_documents err st), st)"
| "disk_handle cfg (Disk_download err i) st = (disk_get_document cfg err i st, st)"
| "disk_handle cfg (Disk_delete env i) st = disk_delete_document cfg env i st"

fun disk_serve ::
  "disk_config \<Rightarrow> disk_request list \<Rightarrow> disk_state \<Rightarrow> response option list \<times> disk_state" where
  "disk_serve cfg [] st = ([], st)"
| "disk_serve cfg (r # rs) st =
     (let (resp, st1) = disk_handle cfg r st;
          (resps, st2) = disk_serve cfg rs st1
      in (resp # resps, st2))"

subsection \<open>Vocabulary of the properties\<close>

text \<open>The ids that a list response shows.\<close>

fun listed_ids :: "response \<Rightarrow> int list" where
  "listed_ids (Response code (DocList ok ds)) = map json_id ds"
| "listed_ids (Response code (RowList ok rs)) = map row_id rs"
| "listed_ids (Response code other) = []"

definition not_found :: response where
  "not_found = Response 404 (Msg False ''Document not found'')"

definition disk_assigned_ids :: "response option list \<Rightarrow> int list" where
  "disk_assigned_ids resps =
     concat (map (\<lambda>r. case r of None \<Rightarrow> [] | Some resp \<Rightarrow> assigned_id resp) resps)"

text \<open>
  The states of the in-memory variant that requests can lead to keep every stored id
  positive, below the counter and different from the others.
\<close>

definition mem_inv :: "mem_state \<Rightarrow> bool" where
  "mem_inv st =
     (distinct (map doc_id (documents st)) \<and>
      list_all (\<lambda>d. 1 \<le> doc_id d \<and> doc_id d < nextId st) (documents st) \<and>
      1 \<le> nextId st)"

text \<open>
  An empty table beside any file system, and the invariant of the table: rowids are
  positive, at most the sequence value and pairwise different, and no two rows share
  a file path. The table outlives the process and only the handlers write to it, so
  each of its states is the result of serving requests from the empty table.
\<close>

definition disk_init :: "(string \<Rightarrow> bytes option) \<Rightarrow> disk_state" where
  "disk_init fs = \<lparr>rows = [], seq = 0, files = fs\<rparr>"

definition disk_inv :: "disk_state \<Rightarrow> bool" where
  "disk_inv st =
     (distinct (map row_id (rows st)) \<and>
      distinct (map filepath (rows st)) \<and>
      list_all (\<lambda>r. 1 \<le> row_id r \<and> row_id r \<le> seq st) (rows st) \<and>
      0 \<le> seq st)"

text \<open>
  Normal operation of the sqlite variant. The source names the stored file after the
  clock and a random number; a request is nominal when that name is not the path of a
  live row, and when the \<^verbatim>\<open>DELETE\<close> statement of a delete does not fail after the
  file has been unlinked. A sequence is nominal when each request is, in the state
  it is served in.
\<close>

fun nominal_step :: "disk_config \<Rightarrow> disk_request \<Rightarrow> disk_state \<Rightarrow> bool" where
  "nominal_step cfg (Disk_upload env p) st =
     (case p of
        None \<Rightarrow> True
      | Some file \<Rightarrow>
          storage_path cfg env file \<notin> set (map filepath (rows st)))"
| "nominal_step cfg (Disk_list err) st = True"
| "nominal_step cfg (Disk_download err i) st = True"
| "nominal_step cfg (Disk_delete env i) st = (\<not> delete_error env)"

fun nominal :: "disk_config \<Rightarrow> disk_request list \<Rightarrow> disk_state \<Rightarrow> bool" where
  "nominal cfg [] st = True"
| "nominal cfg (r # rs) st =
     (nominal_step cfg r st \<and> nominal cfg rs (snd (disk_handle cfg r st)))"

text \<open>
  An id string is absent from the store when the handlers' own lookup finds no record
  for it.
\<close>

definition absent :: "string \<Rightarrow> mem_state \<Rightarrow> bool" where
  "absent s st = (find (\<lambda>doc. Some (doc_id doc) = parseInt s) (documents st) = None)"

definition disk_absent :: "disk_config \<Rightarrow> string \<Rightarrow> disk_state \<Rightarrow> bool" where
  "disk_absent cfg s st =
     (find (\<lambda>r. text_as_id cfg s = Some (row_id r)) (rows st) = None)"

text \<open>
  The messages that the route handlers themselves put into a failure response, and the
  test that a response, when it is a failure, carries one of them.
\<close>

definition handler_messages :: "string list" where
  "handler_messages =
     [''No file uploaded or invalid file type'',
      ''Document not found'',
      ''File not found on disk'',
      ''Database error'',
      ''Failed to save document metadata'',
      ''Failed to retrieve documents'',
      ''Failed to delete document from database'']"

fun fixed_failure :: "response \<Rightarrow> bool" where
  "fixed_failure (Response code (Msg ok msg)) = (ok \<or> msg \<in> set handler_messages)"
| "fixed_failure (Response code other) = True"

subsection \<open>Sample inputs\<close>

text \<open>
  A well-formed upload of a PDF in the field \<^verbatim>\<open>document\<close>, a configuration of the
  sqlite variant, and environments in which no database or file system call fails.
  The sample configuration reads an id text as \<open>parseInt\<close> does; the samples only
  use plain decimal texts such as \<^verbatim>\<open>1\<close>, which the engine also takes for that integer.
\<close>

definition sample_pdf :: "string \<Rightarrow> bytes \<Rightarrow> part" where
  "sample_pdf name data =
     \<lparr>part_fieldname = ''document'', part_filename = name,
      part_mimetype = ''application/pdf'', part_data = data\<rparr>"

definition sample_cfg :: disk_config where
  "sample_cfg = \<lparr>uploadsDir = ''/srv/uploads'', max_file_size = None, text_as_id = parseInt\<rparr>"

definition sample_upload_env :: "string \<Rightarrow> nat \<Rightarrow> upload_env" where
  "sample_upload_env suffix t =
     \<lparr>uniqueSuffix = suffix, write_error = None, insert_error = False,
      current_timestamp = t, response_time = t * 1000 + 7\<rparr>"

definition sample_delete_env :: delete_env where
  "sample_delete_env = \<lparr>select_error = False, unlink_throws = False, delete_error = False\<rparr>"

text \<open>A file that is not a PDF, and the in-memory state after one upload.\<close>

definition sample_png :: part where
  "sample_png = \<lparr>part_fieldname = ''document'', part_filename = ''scan.png'',
                 part_mimetype = ''image/png'', part_data = [137, 80, 78, 71]\<rparr>"

definition one_document :: mem_state where
  "one_document = snd (post_upload None 10 (Some (sample_pdf ''a.pdf'' [37, 80])) init_state)"

text \<open>
  The sqlite variant after one upload, and after a delete of that document whose
  \<^verbatim>\<open>DELETE\<close> statement failed: the row is left without its file.
\<close>

definition one_row :: disk_state where
  "one_row =
     snd (disk_post_upload sample_cfg (sample_upload_env ''1700000000000-1'' 10)
            (Some (sample_pdf ''a.pdf'' [37, 80])) (disk_init Map.empty))"

definition dangling_record :: disk_state where
  "dangling_record =
     snd (disk_delete_document sample_cfg (sample_delete_env\<lparr>delete_error := True\<rparr>) ''1''
            one_row)"

text \<open>
  The message with which Node rejects the opening of a file it may not write, as the
  disk storage of multer passes it on.
\<close>

definition eacces_message :: string where
  "eacces_message =
     ''EACCES: permission denied, open '' @ [CHR 0x27] @
     ''/srv/uploads/1700000000001-2-b.pdf'' @ [CHR 0x27]"

text \<open>Requests that follow the upload under observation.\<close>

definition later_requests :: "request list" where
  "later_requests =
     [POST_upload 30 (Some (sample_pdf ''c.pdf'' [70, 1])), DELETE_document ''1'',
      GET_documents]"

definition later_disk_requests :: "disk_request list" where
  "later_disk_requests =
     [Disk_upload (sample_upload_env ''1700000000002-3'' 30) (Some (sample_pdf ''c.pdf'' [70, 1])),
      Disk_delete sample_delete_env ''1'',
      Disk_list False]"

text \<open>
  The states after the only document has been deleted and another one uploaded.
\<close>

definition after_delete :: mem_state where
  "after_delete =
     snd (serve None [POST_upload 30 (Some (sample_pdf ''c.pdf'' [70, 1]))]
            (snd (delete_document ''1'' one_document)))"

definition disk_after_delete :: disk_state where
  "disk_after_delete =
     snd (disk_serve sample_cfg
            [Disk_upload (sample_upload_env ''1700000000002-3'' 30)
               (Some (sample_pdf ''c.pdf'' [70, 1]))]
            (snd (disk_delete_document sample_cfg sample_delete_env ''1'' one_row)))"

text \<open>
  States in which a listed document does not download as it was uploaded: the only
  document has a line feed in its name; the only document was uploaded under the
  size limit \<open>-1\<close>; a second upload in the same millisecond got the storage name of
  the first.
\<close>

definition line_feed_name :: string where
  "line_feed_name = ''scan'' @ [CHR 0x0A] @ ''.pdf''"

definition line_feed_document :: mem_state where
  "line_feed_document =
     snd (post_upload None 10 (Some (sample_pdf line_feed_name [37, 80])) init_state)"

definition truncated_document :: mem_state where
  "truncated_document =
     snd (post_upload (Some ''-1'') 10 (Some (sample_pdf ''a.pdf'' [37, 80])) init_state)"

definition overwritten_row :: disk_state where
  "overwritten_row =
     snd (disk_post_upload sample_cfg (sample_upload_env ''1700000000000-1'' 10)
            (Some (sample_pdf ''a.pdf'' [68, 70])) one_row)"

section \<open>Properties\<close>

subsection \<open>Arrays: \<open>findIndex\<close> and \<open>splice\<close>\<close>

lemma findIndex_ge: "- 1 \<le> findIndex P xs"
  by (induction xs) (simp_all add: Let_def)

lemma findIndex_none_iff: "findIndex P xs = - 1 \<longleftrightarrow> (\<forall>x \<in> set xs. \<not> P x)"
proof (induction xs)
  case Nil
  then show ?case by simp
next
  case (Cons x xs)
  have "- 1 \<le> findIndex P xs" by (rule findIndex_ge)
  with Cons show ?case by (simp add: Let_def)
qed

lemma splice1_Cons_Suc: "0 \<le> r \<Longrightarrow> splice1 (r + 1) (x # xs) = x # splice1 r xs"
  by (simp add: splice1_def nat_add_distrib)

lemma splice1_zero: "splice1 0 (x # xs) = xs"
  by (simp add: splice1_def)

lemma set_splice1_subset: "set (splice1 i xs) \<subseteq> set xs"
proof -
  have "set (take (nat i) xs) \<subseteq> set xs" by (rule set_take_subset)
  moreover have "set (drop (nat i + 1) xs) \<subseteq> set xs" by (rule set_drop_subset)
  ultimately show ?thesis by (simp add: splice1_def)
qed

lemma splice1_findIndex_filter:
  assumes "distinct (map f xs)" and "\<And>x. P x \<longleftrightarrow> f x = k" and "findIndex P xs \<noteq> - 1"
  shows "splice1 (findIndex P xs) xs = filter (\<lambda>x. \<not> P x) xs"
  using assms(1,3)
proof (induction xs)
  case Nil
  then show ?case by simp
next
  case (Cons x xs)
  show ?case
  proof (cases "P x")
    case True
    then have "f x = k" using assms(2) by simp
    with Cons.prems(1) have "\<forall>y \<in> set xs. \<not> P y"
      using assms(2) by (auto simp: image_iff)
    then have "filter (\<lambda>x. \<not> P x) xs = xs" by (simp add: filter_id_conv)
    with True show ?thesis by (simp add: splice1_zero)
  next
    case False
    with Cons.prems(2) have ne: "findIndex P xs \<noteq> - 1" by (simp add: Let_def split: if_splits)
    have ge: "0 \<le> findIndex P xs" using findIndex_ge [of P xs] ne by linarith
    have "splice1 (findIndex P xs) xs = filter (\<lambda>x. \<not> P x) xs"
      using Cons.IH Cons.prems(1) ne by simp
    with False ne ge show ?thesis by (simp add: Let_def splice1_Cons_Suc)
  qed
qed

lemma list_all_splice1: "list_all Q xs \<Longrightarrow> list_all Q (splice1 i xs)"
  using set_splice1_subset [of i xs] by (auto simp: list_all_iff)

lemma distinct_map_splice1: "distinct (map f xs) \<Longrightarrow> distinct (map f (splice1 i xs))"
proof -
  assume d: "distinct (map f xs)"
  let ?ys = "map f xs"
  have eq: "map f (splice1 i xs) = take (nat i) ?ys @ drop (nat i + 1) ?ys"
    by (simp add: splice1_def take_map drop_map)
  have "distinct (take (nat i) ?ys @ drop (nat i) ?ys)"
    using d by (simp only: append_take_drop_id)
  then have disj: "set (take (nat i) ?ys) \<inter> set (drop (nat i) ?ys) = {}"
    by (simp only: distinct_append)
  have "set (drop (nat i + 1) ?ys) \<subseteq> set (drop (nat i) ?ys)"
    by (rule set_drop_subset_set_drop) simp
  with disj have "set (take (nat i) ?ys) \<inter> set (drop (nat i + 1) ?ys) = {}" by blast
  moreover have "distinct (take (nat i) ?ys)" using d by (rule distinct_take)
  moreover have "distinct (drop (nat i + 1) ?ys)" using d by (rule distinct_drop)
  ultimately show ?thesis unfolding eq by (simp only: distinct_append simp_thms)
qed

subsection \<open>The in-memory variant: one request\<close>

lemma busboy_file_positive:
  assumes "0 < limit"
  shows "busboy_file limit data = (if limit \<le> int (length data) then None else Some data)"
  using assms by (auto simp: busboy_file_def)

lemma multer_memory_Some:
  "multer_memory env p = Next (Some f) \<Longrightarrow>
     \<exists>file stored. p = Some file \<and> part_filename file \<noteq> [] \<and>
       part_fieldname file = ''document'' \<and> part_mimetype file = ''application/pdf'' \<and>
       busboy_file (fileSize_limit env) (part_data file) = Some stored \<and>
       f = \<lparr>file_originalname = part_filename file, file_mimetype = part_mimetype file,
            file_size = length stored, file_buffer = stored\<rparr>"
  by (auto simp: multer_memory_def fileFilter_def split: option.splits if_splits)

lemma errorMiddleware_failure: "\<exists>code msg. errorMiddleware e = Response code (Msg False msg) \<and> 400 \<le> code"
  by (cases e) simp_all

lemma post_upload_cases:
  assumes "post_upload env now p st = (resp, st1)"
  shows "(st1 = st \<and> (\<exists>code msg. resp = Response code (Msg False msg) \<and> 400 \<le> code)) \<or>
         (\<exists>file stored. p = Some file \<and> part_filename file \<noteq> [] \<and>
            part_fieldname file = ''document'' \<and> part_mimetype file = ''application/pdf'' \<and>
            busboy_file (fileSize_limit env) (part_data file) = Some stored \<and>
            resp = Response 200 (UploadedDoc True ''File uploaded successfully''
                     \<lparr>json_id = nextId st, json_filename = part_filename file,
                      json_filesize = length stored, json_created_at = IsoString now\<rparr>) \<and>
            st1 = st\<lparr>documents := documents st @
                       [\<lparr>doc_id = nextId st, filename = part_filename file,
                         filesize = length stored, buffer = stored,
                         created_at = IsoString now\<rparr>],
                     nextId := nextId st + 1\<rparr>)"
proof (cases "multer_memory env p")
  case (NextErr e)
  with assms have "st1 = st" and "resp = errorMiddleware e" by (simp_all add: post_upload_def)
  then show ?thesis using errorMiddleware_failure [of e] by auto
next
  case (Next fo)
  show ?thesis
  proof (cases fo)
    case None
    with Next assms show ?thesis by (auto simp: post_upload_def upload_handler_def)
  next
    case (Some f)
    from multer_memory_Some [OF Next [unfolded Some]] obtain pt stored where
      f: "p = Some pt" "part_filename pt \<noteq> []" "part_fieldname pt = ''document''"
         "part_mimetype pt = ''application/pdf''"
         "busboy_file (fileSize_limit env) (part_data pt) = Some stored"
         "f = \<lparr>file_originalname = part_filename pt, file_mimetype = part_mimetype pt,
            file_size = length stored, file_buffer = stored\<rparr>"
      by blast
    from assms Next Some have
      "resp = fst (upload_handler now (Some f) st)" "st1 = snd (upload_handler now (Some f) st)"
      by (simp_all add: post_upload_def)
    with f show ?thesis by (simp add: upload_handler_def to_json_def Let_def)
  qed
qed

lemma setHeader_throws_content_disposition:
  "setHeader_throws (content_disposition name) \<longleftrightarrow> list_ex invalid_header_char name"
  by (simp add: setHeader_throws_def content_disposition_def invalid_header_char_def)

lemma get_document_absent:
  "\<forall>d \<in> set (documents st). Some (doc_id d) \<noteq> parseInt s \<Longrightarrow> get_document s st = not_found"
proof -
  assume "\<forall>d \<in> set (documents st). Some (doc_id d) \<noteq> parseInt s"
  then have "find (\<lambda>doc. Some (doc_id doc) = parseInt s) (documents st) = None"
    by (simp add: find_None_iff)
  then show ?thesis by (simp add: get_document_def get_document_handler_def not_found_def)
qed

lemma get_document_present:
  assumes "d \<in> set (documents st)" and "Some (doc_id d) = parseInt s"
  shows "\<exists>d' \<in> set (documents st). Some (doc_id d') = parseInt s \<and>
           get_document_handler s st =
             (if setHeader_throws (content_disposition (filename d')) then Inl invalid_header_error
              else Inr (Response 200 (SendFile (download_headers (filename d')) (buffer d'))))"
proof (cases "find (\<lambda>doc. Some (doc_id doc) = parseInt s) (documents st)")
  case None
  with assms show ?thesis by (auto simp: find_None_iff)
next
  case (Some d')
  then have "d' \<in> set (documents st)" and "Some (doc_id d') = parseInt s"
    by (auto simp: find_Some_iff)
  with Some show ?thesis by (auto simp: get_document_handler_def)
qed

lemma delete_document_absent:
  "\<forall>d \<in> set (documents st). Some (doc_id d) \<noteq> parseInt s \<Longrightarrow>
     delete_document s st = (not_found, st)"
proof -
  assume "\<forall>d \<in> set (documents st). Some (doc_id d) \<noteq> parseInt s"
  then have "findIndex (\<lambda>doc. Some (doc_id doc) = parseInt s) (documents st) = - 1"
    by (simp add: findIndex_none_iff)
  then show ?thesis by (simp add: delete_document_def not_found_def)
qed

lemma delete_document_documents:
  "set (documents (snd (delete_document s st))) \<subseteq> set (documents st)"
  using set_splice1_subset [of "findIndex (\<lambda>doc. Some (doc_id doc) = parseInt s) (documents st)"
      "documents st"]
  by (auto simp: delete_document_def Let_def)

lemma delete_document_nextId: "nextId (snd (delete_document s st)) = nextId st"
  by (simp add: delete_document_def Let_def)

lemma delete_document_not_upload: "assigned_id (fst (delete_document s st)) = []"
  by (simp add: delete_document_def Let_def)

lemma delete_document_removes:
  assumes "mem_inv st" and "delete_document s st = (Response 200 b, st1)"
  shows "documents st1 = filter (\<lambda>d. Some (doc_id d) \<noteq> parseInt s) (documents st)"
proof -
  let ?P = "\<lambda>doc. Some (doc_id doc) = parseInt s"
  from assms(2) have ne: "findIndex ?P (documents st) \<noteq> - 1"
    and st1: "st1 = st\<lparr>documents := splice1 (findIndex ?P (documents st)) (documents st)\<rparr>"
    by (auto simp: delete_document_def Let_def split: if_splits)
  then obtain d where "d \<in> set (documents st)" and "?P d"
    by (auto simp: findIndex_none_iff)
  then have k: "parseInt s = Some (doc_id d)" by simp
  have "distinct (map doc_id (documents st))" using assms(1) by (simp add: mem_inv_def)
  moreover have "\<And>x. ?P x \<longleftrightarrow> doc_id x = doc_id d" using k by auto
  ultimately have "splice1 (findIndex ?P (documents st)) (documents st)
      = filter (\<lambda>x. \<not> ?P x) (documents st)"
    using ne by (rule splice1_findIndex_filter)
  with st1 show ?thesis by simp
qed

subsection \<open>The in-memory variant: sequences of requests\<close>

lemma get_document_not_upload: "assigned_id (get_document s st) = []"
proof (cases "get_document_handler s st")
  case (Inl e)
  then show ?thesis using errorMiddleware_failure [of e] by (auto simp: get_document_def)
next
  case (Inr resp)
  then show ?thesis
    by (auto simp: get_document_def get_document_handler_def Let_def
        split: option.splits if_splits)
qed

lemma handle_step:
  assumes "handle env r st = (resp, st1)"
  shows "(assigned_id resp = [] \<and> nextId st1 = nextId st \<and>
            set (documents st1) \<subseteq> set (documents st)) \<or>
         (assigned_id resp = [nextId st] \<and> nextId st1 = nextId st + 1 \<and>
            (\<exists>d. doc_id d = nextId st \<and> documents st1 = documents st @ [d]))"
proof (cases r)
  case (POST_upload now p)
  with assms have "post_upload env now p st = (resp, st1)" by simp
  from post_upload_cases [OF this] show ?thesis by auto
next
  case GET_documents
  with assms show ?thesis by (auto simp: get_documents_def)
next
  case (GET_document i)
  with assms show ?thesis using get_document_not_upload [of i st] by auto
next
  case (DELETE_document i)
  with assms have "resp = fst (delete_document i st)" "st1 = snd (delete_document i st)"
    by simp_all
  then show ?thesis
    using delete_document_documents [of i st] delete_document_nextId [of i st]
      delete_document_not_upload [of i st] by simp
qed

lemma handle_nextId_mono: "handle env r st = (resp, st1) \<Longrightarrow> nextId st \<le> nextId st1"
  using handle_step [of env r st resp st1] by auto

lemma handle_documents:
  "handle env r st = (resp, st1) \<Longrightarrow> d \<in> set (documents st1) \<Longrightarrow>
     d \<in> set (documents st) \<or> doc_id d = nextId st"
  using handle_step [of env r st resp st1] by auto

lemma handle_mem_inv:
  assumes "mem_inv st" and "handle env r st = (resp, st1)"
  shows "mem_inv st1"
proof (cases r)
  case (POST_upload now p)
  with assms(2) have "post_upload env now p st = (resp, st1)" by simp
  from post_upload_cases [OF this] have
    "st1 = st \<or> (\<exists>d. doc_id d = nextId st \<and> documents st1 = documents st @ [d] \<and>
       nextId st1 = nextId st + 1)"
    by auto
  then show ?thesis
  proof
    assume "st1 = st"
    with assms(1) show ?thesis by simp
  next
    assume "\<exists>d. doc_id d = nextId st \<and> documents st1 = documents st @ [d] \<and>
       nextId st1 = nextId st + 1"
    then obtain d where d: "doc_id d = nextId st" and st1: "documents st1 = documents st @ [d]"
      "nextId st1 = nextId st + 1" by blast
    from assms(1) have lt: "\<forall>x \<in> set (documents st). 1 \<le> doc_id x \<and> doc_id x < nextId st"
      and dist: "distinct (map doc_id (documents st))" and pos: "1 \<le> nextId st"
      by (simp_all add: mem_inv_def list_all_iff)
    from lt d have "doc_id d \<notin> doc_id ` set (documents st)" by force
    with dist lt d pos st1 show ?thesis
      by (simp add: mem_inv_def list_all_iff) force
  qed
next
  case GET_documents
  with assms show ?thesis by auto
next
  case (GET_document i)
  with assms show ?thesis by auto
next
  case (DELETE_document i)
  with assms(2) have "delete_document i st = (resp, st1)" by simp
  then have "st1 = st \<or> (\<exists>j. st1 = st\<lparr>documents := splice1 j (documents st)\<rparr>)"
    by (auto simp: delete_document_def Let_def split: if_splits)
  with assms(1) show ?thesis
    by (auto simp: mem_inv_def distinct_map_splice1 list_all_splice1 simp del: distinct_map)
qed

lemma serve_mem_inv:
  "mem_inv st \<Longrightarrow> serve env reqs st = (resps, st1) \<Longrightarrow> mem_inv st1"
proof (induction reqs arbitrary: st resps st1)
  case Nil
  then show ?case by simp
next
  case (Cons r rs)
  obtain resp st' where h: "handle env r st = (resp, st')" by (cases "handle env r st")
  obtain rest st'' where s: "serve env rs st' = (rest, st'')" by (cases "serve env rs st'")
  from Cons.prems(2) h s have "st1 = st''" by simp
  moreover have "mem_inv st'" using Cons.prems(1) h by (rule handle_mem_inv)
  ultimately show ?case using Cons.IH s by simp
qed

lemma mem_inv_init: "mem_inv init_state"
  by (simp add: mem_inv_def init_state_def)

lemma serve_ids:
  "serve env reqs st = (resps, st1) \<Longrightarrow>
     sorted_wrt (<) (assigned_ids resps) \<and>
     list_all (\<lambda>i. nextId st \<le> i \<and> i < nextId st1) (assigned_ids resps) \<and>
     nextId st \<le> nextId st1"
proof (induction reqs arbitrary: st resps st1)
  case Nil
  then show ?case by (simp add: assigned_ids_def)
next
  case (Cons r rs)
  obtain resp st' where h: "handle env r st = (resp, st')" by (cases "handle env r st")
  obtain rest st'' where s: "serve env rs st' = (rest, st'')" by (cases "serve env rs st'")
  from Cons.prems h s have eq: "resps = resp # rest" "st1 = st''" by simp_all
  from Cons.IH [OF s] have ih: "sorted_wrt (<) (assigned_ids rest)"
    "list_all (\<lambda>i. nextId st' \<le> i \<and> i < nextId st'') (assigned_ids rest)"
    "nextId st' \<le> nextId st''" by simp_all
  have app: "assigned_ids (resp # rest) = assigned_id resp @ assigned_ids rest"
    by (simp add: assigned_ids_def)
  from handle_step [OF h] show ?case
  proof
    assume "assigned_id resp = [] \<and> nextId st' = nextId st \<and> set (documents st') \<subseteq> set (documents st)"
    with ih eq app show ?thesis by simp
  next
    assume a: "assigned_id resp = [nextId st] \<and> nextId st' = nextId st + 1 \<and>
      (\<exists>d. doc_id d = nextId st \<and> documents st' = documents st @ [d])"
    with ih(2) have "list_all (\<lambda>i. nextId st < i \<and> i < nextId st'') (assigned_ids rest)"
      by (auto simp: list_all_iff)
    with a ih eq app show ?thesis by (auto simp: list_all_iff)
  qed
qed

subsection \<open>The sqlite variant: one request\<close>

lemma multer_disk_cases:
  assumes "multer_disk cfg env p fs = (res, fs1)"
  shows "(\<exists>e. res = NextErr e \<and> fs1 = fs) \<or> (res = Next None \<and> fs1 = fs) \<or>
         (\<exists>file. p = Some file \<and> res = NextErr (MulterError ''LIMIT_FILE_SIZE'' ''File too large'') \<and>
            fs1 = fs(storage_path cfg env file := None)) \<or>
         (\<exists>file stored. p = Some file \<and> part_filename file \<noteq> [] \<and>
            part_fieldname file = ''document'' \<and>
            part_mimetype file = ''application/pdf'' \<and>
            busboy_file (fileSize_limit (max_file_size cfg)) (part_data file) = Some stored \<and>
            res = Next (Some \<lparr>disk_filename = storage_filename env file,
                              disk_path = storage_path cfg env file,
                              disk_size = length stored,
                              disk_originalname = part_filename file\<rparr>) \<and>
            fs1 = fs(storage_path cfg env file \<mapsto> stored))"
  using assms
  by (auto simp: multer_disk_def fileFilter_def split: option.splits if_splits)

lemma disk_post_upload_cases:
  assumes "disk_post_upload cfg env p st = (resp, st1)"
  shows "(rows st1 = rows st \<and> seq st1 = seq st \<and>
            (\<exists>code msg. resp = Response code (Msg False msg) \<and> 400 \<le> code) \<and>
            (files st1 = files st \<or>
             (\<exists>file. p = Some file \<and>
                (\<forall>q. q \<noteq> storage_path cfg env file \<longrightarrow> files st1 q = files st q)))) \<or>
         (\<exists>file stored. p = Some file \<and> part_filename file \<noteq> [] \<and>
            part_fieldname file = ''document'' \<and>
            part_mimetype file = ''application/pdf'' \<and>
            busboy_file (fileSize_limit (max_file_size cfg)) (part_data file) = Some stored \<and>
            \<not> insert_error env \<and>
            resp = Response 200 (UploadedDoc True ''File uploaded successfully''
                     \<lparr>json_id = seq st + 1, json_filename = part_filename file,
                      json_filesize = length stored,
                      json_created_at = IsoString (response_time env)\<rparr>) \<and>
            rows st1 = rows st @
                       [\<lparr>row_id = seq st + 1, row_filename = part_filename file,
                         filepath = storage_path cfg env file,
                         row_filesize = length stored,
                         row_created_at = SqlDatetime (current_timestamp env)\<rparr>] \<and>
            seq st1 = seq st + 1 \<and>
            files st1 = (files st)(storage_path cfg env file \<mapsto> stored))"
proof -
  obtain res fs1 where m: "multer_disk cfg env p (files st) = (res, fs1)"
    by (cases "multer_disk cfg env p (files st)")
  from multer_disk_cases [OF m] consider
      (err) e where "res = NextErr e" "fs1 = files st"
    | (none) "res = Next None" "fs1 = files st"
    | (big) pt where "p = Some pt" "res = NextErr (MulterError ''LIMIT_FILE_SIZE'' ''File too large'')"
        "fs1 = (files st)(storage_path cfg env pt := None)"
    | (ok) pt stored where "p = Some pt" "part_filename pt \<noteq> []" "part_fieldname pt = ''document''"
        "part_mimetype pt = ''application/pdf''"
        "busboy_file (fileSize_limit (max_file_size cfg)) (part_data pt) = Some stored"
        "res = Next (Some \<lparr>disk_filename = storage_filename env pt,
                              disk_path = storage_path cfg env pt,
                              disk_size = length stored,
                              disk_originalname = part_filename pt\<rparr>)"
        "fs1 = (files st)(storage_path cfg env pt \<mapsto> stored)"
    by blast
  then show ?thesis
  proof cases
    case err
    with assms m have "resp = errorMiddleware e" "st1 = st"
      by (simp_all add: disk_post_upload_def)
    then show ?thesis using errorMiddleware_failure [of e] by auto
  next
    case none
    with assms m show ?thesis
      by (auto simp: disk_post_upload_def disk_upload_handler_def)
  next
    case big
    with assms m show ?thesis
      by (auto simp: disk_post_upload_def)
  next
    case ok
    show ?thesis
    proof (cases "insert_error env")
      case True
      with ok assms m show ?thesis
        by (auto simp: disk_post_upload_def disk_upload_handler_def)
    next
      case False
      with ok assms m have
        "resp = Response 200 (UploadedDoc True ''File uploaded successfully''
                     \<lparr>json_id = seq st + 1, json_filename = part_filename pt,
                      json_filesize = length stored,
                      json_created_at = IsoString (response_time env)\<rparr>)"
        "rows st1 = rows st @
                       [\<lparr>row_id = seq st + 1, row_filename = part_filename pt,
                         filepath = storage_path cfg env pt,
                         row_filesize = length stored,
                         row_created_at = SqlDatetime (current_timestamp env)\<rparr>]"
        "seq st1 = seq st + 1"
        "files st1 = (files st)(storage_path cfg env pt \<mapsto> stored)"
        by (auto simp: disk_post_upload_def disk_upload_handler_def Let_def)
      with ok False show ?thesis by blast
    qed
  qed
qed

lemma disk_get_document_absent:
  "\<not> err \<Longrightarrow> \<forall>r \<in> set (rows st). text_as_id cfg s \<noteq> Some (row_id r) \<Longrightarrow>
     disk_get_document cfg err s st = Some not_found"
proof -
  assume e: "\<not> err" and "\<forall>r \<in> set (rows st). text_as_id cfg s \<noteq> Some (row_id r)"
  then have "find (\<lambda>r. text_as_id cfg s = Some (row_id r)) (rows st) = None"
    by (simp add: find_None_iff)
  with e show ?thesis by (simp add: disk_get_document_def not_found_def)
qed

lemma disk_delete_document_absent:
  "\<not> select_error env \<Longrightarrow> \<forall>r \<in> set (rows st). text_as_id cfg s \<noteq> Some (row_id r) \<Longrightarrow>
     disk_delete_document cfg env s st = (Some not_found, st)"
proof -
  assume e: "\<not> select_error env" and "\<forall>r \<in> set (rows st). text_as_id cfg s \<noteq> Some (row_id r)"
  then have "find (\<lambda>r. text_as_id cfg s = Some (row_id r)) (rows st) = None"
    by (simp add: find_None_iff)
  with e show ?thesis by (simp add: disk_delete_document_def not_found_def)
qed

lemma disk_delete_document_cases:
  assumes "disk_delete_document cfg env s st = (resp, st1)"
  shows "(st1 = st \<and> resp \<noteq> Some (Response 200 (Msg True ''Document deleted successfully''))) \<or>
         (\<exists>row \<in> set (rows st). text_as_id cfg s = Some (row_id row) \<and>
            files st1 = (files st)(filepath row := None) \<and> seq st1 = seq st \<and>
            (if delete_error env
             then rows st1 = rows st \<and>
                  resp = Some (Response 500 (Msg False ''Failed to delete document from database''))
             else rows st1 = filter (\<lambda>r. text_as_id cfg s \<noteq> Some (row_id r)) (rows st) \<and>
                  resp = Some (Response 200 (Msg True ''Document deleted successfully''))))"
proof (cases "select_error env")
  case True
  with assms show ?thesis by (auto simp: disk_delete_document_def)
next
  case False
  show ?thesis
  proof (cases "find (\<lambda>r. text_as_id cfg s = Some (row_id r)) (rows st)")
    case None
    with False assms show ?thesis by (auto simp: disk_delete_document_def)
  next
    case (Some row)
    then have row: "row \<in> set (rows st)" "text_as_id cfg s = Some (row_id row)"
      by (auto simp: find_Some_iff)
    show ?thesis
    proof (cases "files st (filepath row) \<noteq> None \<and> unlink_throws env")
      case True
      with False Some assms show ?thesis by (auto simp: disk_delete_document_def)
    next
      case nothrow: False
      have fs: "files st (filepath row) = None \<Longrightarrow> (files st)(filepath row := None) = files st"
        by (rule fun_upd_idem)
      from nothrow False Some assms row fs show ?thesis
        by (cases "files st (filepath row)"; cases "delete_error env")
           (auto simp: disk_delete_document_def Let_def intro!: bexI [of _ row])
    qed
  qed
qed

subsection \<open>The sqlite variant: sequences of requests\<close>

lemma disk_handle_step:
  assumes "disk_handle cfg r st = (resp, st1)"
  shows "(disk_assigned_ids [resp] = [] \<and> seq st1 = seq st \<and> set (rows st1) \<subseteq> set (rows st)) \<or>
         (disk_assigned_ids [resp] = [seq st + 1] \<and> seq st1 = seq st + 1 \<and>
            (\<exists>row. row_id row = seq st + 1 \<and> rows st1 = rows st @ [row]))"
proof (cases r)
  case (Disk_upload env p)
  then obtain resp' where r': "disk_post_upload cfg env p st = (resp', st1)" "resp = Some resp'"
    using assms by (auto split: prod.splits)
  from disk_post_upload_cases [OF r'(1)] r'(2) show ?thesis
    by (auto simp: disk_assigned_ids_def)
next
  case (Disk_list err)
  with assms show ?thesis by (auto simp: disk_assigned_ids_def disk_get_documents_def)
next
  case (Disk_download err i)
  with assms show ?thesis
    by (auto simp: disk_assigned_ids_def disk_get_document_def split: option.splits if_splits)
next
  case (Disk_delete env i)
  with assms have d: "disk_delete_document cfg env i st = (resp, st1)" by simp
  have na: "disk_assigned_ids [resp] = []"
    using d by (auto simp: disk_assigned_ids_def disk_delete_document_def Let_def
        split: if_splits option.splits)
  from disk_delete_document_cases [OF d] na show ?thesis
    by (auto split: if_splits)
qed

lemma disk_serve_ids:
  "disk_serve cfg reqs st = (resps, st1) \<Longrightarrow>
     sorted_wrt (<) (disk_assigned_ids resps) \<and>
     list_all (\<lambda>i. seq st < i \<and> i \<le> seq st1) (disk_assigned_ids resps) \<and>
     seq st \<le> seq st1"
proof (induction reqs arbitrary: st resps st1)
  case Nil
  then show ?case by (simp add: disk_assigned_ids_def)
next
  case (Cons r rs)
  obtain resp st' where h: "disk_handle cfg r st = (resp, st')"
    by (cases "disk_handle cfg r st")
  obtain rest st'' where s: "disk_serve cfg rs st' = (rest, st'')"
    by (cases "disk_serve cfg rs st'")
  from Cons.prems h s have eq: "resps = resp # rest" "st1 = st''" by simp_all
  from Cons.IH [OF s] have ih: "sorted_wrt (<) (disk_assigned_ids rest)"
    "list_all (\<lambda>i. seq st' < i \<and> i \<le> seq st'') (disk_assigned_ids rest)"
    "seq st' \<le> seq st''" by simp_all
  have app: "disk_assigned_ids (resp # rest) = disk_assigned_ids [resp] @ disk_assigned_ids rest"
    by (simp add: disk_assigned_ids_def)
  from disk_handle_step [OF h] show ?case
  proof
    assume "disk_assigned_ids [resp] = [] \<and> seq st' = seq st \<and> set (rows st') \<subseteq> set (rows st)"
    with ih eq app show ?thesis by simp
  next
    assume a: "disk_assigned_ids [resp] = [seq st + 1] \<and> seq st' = seq st + 1 \<and>
      (\<exists>row. row_id row = seq st + 1 \<and> rows st' = rows st @ [row])"
    with ih eq app show ?thesis by (auto simp: list_all_iff)
  qed
qed

subsection \<open>Evaluation of the sample inputs\<close>

lemma sample_cfg_sel:
  "uploadsDir sample_cfg = ''/srv/uploads''" "max_file_size sample_cfg = None"
  "text_as_id sample_cfg = parseInt"
  by (simp_all add: sample_cfg_def)

lemma fileSize_limit_default: "fileSize_limit None = 10485760"
  by (simp add: fileSize_limit_def)

lemma parseInt_digit_1: "parseInt ''1'' = Some 1"
  by (simp add: parseInt_def strip_sign_def strip_radix_def is_ws_def is_digit_def digit_val_def
      digits_value_def)

lemma parseInt_digit_2: "parseInt ''2'' = Some 2"
  by (simp add: parseInt_def strip_sign_def strip_radix_def is_ws_def is_digit_def digit_val_def
      digits_value_def)

lemma post_upload_sample:
  "post_upload None now (Some (sample_pdf (c # name) [a, b])) st =
     (Response 200 (UploadedDoc True ''File uploaded successfully''
        \<lparr>json_id = nextId st, json_filename = c # name, json_filesize = 2,
         json_created_at = IsoString now\<rparr>),
      st\<lparr>documents := documents st @
            [\<lparr>doc_id = nextId st, filename = c # name, filesize = 2, buffer = [a, b],
              created_at = IsoString now\<rparr>],
         nextId := nextId st + 1\<rparr>)"
  by (simp add: post_upload_def multer_memory_def sample_pdf_def fileFilter_def
      fileSize_limit_default busboy_file_def upload_handler_def to_json_def)

lemma disk_post_upload_sample:
  "disk_post_upload sample_cfg (sample_upload_env suffix t) (Some (sample_pdf (c # name) [a, b])) st =
     (Response 200 (UploadedDoc True ''File uploaded successfully''
        \<lparr>json_id = seq st + 1, json_filename = c # name, json_filesize = 2,
         json_created_at = IsoString (t * 1000 + 7)\<rparr>),
      st\<lparr>files := (files st)(''/srv/uploads/'' @ suffix @ ''-'' @ c # name \<mapsto> [a, b]),
         rows := rows st @
            [\<lparr>row_id = seq st + 1, row_filename = c # name,
              filepath = ''/srv/uploads/'' @ suffix @ ''-'' @ c # name,
              row_filesize = 2, row_created_at = SqlDatetime t\<rparr>],
         seq := seq st + 1\<rparr>)"
  by (simp add: disk_post_upload_def multer_disk_def sample_pdf_def fileFilter_def
      sample_cfg_sel sample_upload_env_def storage_path_def storage_filename_def
      fileSize_limit_default busboy_file_def disk_upload_handler_def Let_def)

subsection \<open>\<open>parseInt\<close> on a decimal prefix\<close>

lemma is_digit_10_iff: "is_digit 10 c \<longleftrightarrow> 48 \<le> (of_char c :: nat) \<and> (of_char c :: nat) \<le> 57"
  by (auto simp: is_digit_def digit_val_def Let_def)

lemma is_digit_10_not_special:
  assumes "is_digit 10 c"
  shows "\<not> is_ws c" and "c \<noteq> CHR ''-''" and "c \<noteq> CHR ''+''"
    and "c \<noteq> CHR ''x''" and "c \<noteq> CHR ''X''"
  using assms by (auto simp: is_digit_10_iff is_ws_def)

lemma takeWhile_prefix:
  "list_all P xs \<Longrightarrow> ys = [] \<or> \<not> P (hd ys) \<Longrightarrow> takeWhile P (xs @ ys) = xs"
  by (induction xs) (auto simp: takeWhile_eq_Nil_iff)

lemma parseInt_decimal_prefix:
  assumes "ds \<noteq> []" and "list_all (is_digit 10) ds"
    and "r = [] \<or> \<not> is_digit 10 (hd r)"
    and "\<not> (ds = ''0'' \<and> r \<noteq> [] \<and> (hd r = CHR ''x'' \<or> hd r = CHR ''X''))"
  shows "parseInt (ds @ r) = Some (int (digits_value 10 ds))"
proof -
  from assms(1) obtain c cs where ds: "ds = c # cs" by (cases ds) auto
  with assms(2) have c: "is_digit 10 c" by simp
  have ws: "dropWhile is_ws (ds @ r) = ds @ r"
    using ds is_digit_10_not_special(1) [OF c] by simp
  have sign: "strip_sign (ds @ r) = (1, ds @ r)"
    using ds is_digit_10_not_special(2,3) [OF c] by (simp add: strip_sign_def)
  have radix: "strip_radix (ds @ r) = (10, ds @ r)"
  proof (cases cs)
    case Nil
    show ?thesis
    proof (cases r)
      case Nil
      with \<open>cs = []\<close> ds show ?thesis by (simp add: strip_radix_def)
    next
      case (Cons d r')
      with \<open>cs = []\<close> ds assms(4) show ?thesis by (auto simp: strip_radix_def)
    qed
  next
    case (Cons d cs')
    with ds assms(2) have "is_digit 10 d" by simp
    from is_digit_10_not_special(4,5) [OF this] Cons ds show ?thesis
      by (simp add: strip_radix_def)
  qed
  have tw: "takeWhile (is_digit 10) (ds @ r) = ds"
    using assms(2,3) by (rule takeWhile_prefix)
  show ?thesis using assms(1) by (simp add: parseInt_def ws sign radix tw)
qed

lemmas parseInt_eval =
  parseInt_def strip_sign_def strip_radix_def is_ws_def is_digit_def digit_val_def
  digits_value_def

lemma one_document_eq:
  "one_document =
     \<lparr>documents = [\<lparr>doc_id = 1, filename = ''a.pdf'', filesize = 2, buffer = [37, 80],
                    created_at = IsoString 10\<rparr>],
      nextId = 2\<rparr>"
  by (simp add: one_document_def post_upload_sample init_state_def)

lemma one_row_eq:
  "one_row =
     \<lparr>rows = [\<lparr>row_id = 1, row_filename = ''a.pdf'',
               filepath = ''/srv/uploads/1700000000000-1-a.pdf'', row_filesize = 2,
               row_created_at = SqlDatetime 10\<rparr>],
      seq = 1,
      files = Map.empty(''/srv/uploads/1700000000000-1-a.pdf'' \<mapsto> [37, 80])\<rparr>"
  by (simp add: one_row_def disk_post_upload_sample disk_init_def)

lemma dangling_record_eq:
  "dangling_record =
     \<lparr>rows = [\<lparr>row_id = 1, row_filename = ''a.pdf'',
               filepath = ''/srv/uploads/1700000000000-1-a.pdf'', row_filesize = 2,
               row_created_at = SqlDatetime 10\<rparr>],
      seq = 1,
      files = Map.empty\<rparr>"
  by (simp add: dangling_record_def one_row_eq disk_delete_document_def sample_cfg_sel
      parseInt_digit_1 sample_delete_env_def)

lemma parseInt_digit_7: "parseInt ''7'' = Some 7"
  by (simp add: parseInt_eval)

subsection \<open>Custody of an uploaded file\<close>

lemma handle_custody:
  assumes "handle env r st = (resp, st1)" and "k < nextId st"
    and "\<forall>d \<in> set (documents st). doc_id d = k \<longrightarrow> filename d = n \<and> buffer d = c"
  shows "k < nextId st1 \<and>
         (\<forall>d \<in> set (documents st1). doc_id d = k \<longrightarrow> filename d = n \<and> buffer d = c)"
proof -
  have "k < nextId st1" using handle_nextId_mono [OF assms(1)] assms(2) by simp
  moreover have "filename d = n \<and> buffer d = c"
    if "d \<in> set (documents st1)" and "doc_id d = k" for d
    using handle_documents [OF assms(1) that(1)] assms(2,3) that(2) by auto
  ultimately show ?thesis by blast
qed

lemma serve_custody:
  assumes "serve env reqs st = (resps, st1)" and "k < nextId st"
    and "\<forall>d \<in> set (documents st). doc_id d = k \<longrightarrow> filename d = n \<and> buffer d = c"
  shows "k < nextId st1 \<and>
         (\<forall>d \<in> set (documents st1). doc_id d = k \<longrightarrow> filename d = n \<and> buffer d = c)"
  using assms
proof (induction reqs arbitrary: st resps st1)
  case Nil
  then show ?case by simp
next
  case (Cons r rs)
  obtain resp st' where h: "handle env r st = (resp, st')" by (cases "handle env r st")
  obtain rest st'' where s: "serve env rs st' = (rest, st'')" by (cases "serve env rs st'")
  from Cons.prems(1) h s have eq: "st1 = st''" by simp
  from handle_custody [OF h Cons.prems(2,3)] have
    "k < nextId st'" "\<forall>d \<in> set (documents st'). doc_id d = k \<longrightarrow> filename d = n \<and> buffer d = c"
    by simp_all
  from Cons.IH [OF s this] eq show ?case by simp
qed

lemma download_after_upload_in_memory:
  assumes reach: "serve env reqs0 init_state = (rs0, st0)"
    and limit: "0 < fileSize_limit env"
    and up: "post_upload env now (Some file) st0 = (Response 200 (UploadedDoc ok msg d), st1)"
    and later: "serve env reqs1 st1 = (rs1, st2)"
    and listed: "json_id d \<in> set (listed_ids (get_documents st2))"
    and param: "parseInt s = Some (json_id d)"
    and header: "\<not> setHeader_throws (content_disposition (part_filename file))"
  shows "get_document s st2 =
           Response 200 (SendFile (download_headers (part_filename file)) (part_data file))"
proof -
  have inv: "mem_inv st0" using mem_inv_init reach by (rule serve_mem_inv)
  from post_upload_cases [OF up] obtain stored where
    st: "busboy_file (fileSize_limit env) (part_data file) = Some stored"
    and k: "json_id d = nextId st0" and n1: "nextId st1 = nextId st0 + 1"
    and docs: "documents st1 = documents st0 @
        [\<lparr>doc_id = nextId st0, filename = part_filename file,
          filesize = length stored, buffer = stored,
          created_at = IsoString now\<rparr>]"
    by auto
  from st limit have stored: "stored = part_data file"
    by (simp add: busboy_file_positive split: if_splits)
  from inv have old: "\<forall>x \<in> set (documents st0). doc_id x < nextId st0"
    by (simp add: mem_inv_def list_all_iff)
  have "json_id d < nextId st1" using k n1 by simp
  moreover have "\<forall>x \<in> set (documents st1). doc_id x = json_id d \<longrightarrow>
      filename x = part_filename file \<and> buffer x = part_data file"
    using old docs k stored by auto
  ultimately have c: "\<forall>x \<in> set (documents st2). doc_id x = json_id d \<longrightarrow>
      filename x = part_filename file \<and> buffer x = part_data file"
    using serve_custody [OF later] by blast
  from listed obtain x where x: "x \<in> set (documents st2)" "doc_id x = json_id d"
    by (auto simp: get_documents_def to_json_def)
  with param have "Some (doc_id x) = parseInt s" by simp
  from get_document_present [OF x(1) this] obtain y where
    y: "y \<in> set (documents st2)" "Some (doc_id y) = parseInt s"
      "get_document_handler s st2 =
         (if setHeader_throws (content_disposition (filename y)) then Inl invalid_header_error
          else Inr (Response 200 (SendFile (download_headers (filename y)) (buffer y))))"
    by blast
  from y(2) param have "doc_id y = json_id d" by simp
  with c y(1) have "filename y = part_filename file" "buffer y = part_data file" by auto
  with y(3) header show ?thesis by (simp add: get_document_def)
qed

subsection \<open>The sqlite variant in normal operation\<close>

lemma disk_handle_nominal:
  assumes "disk_handle cfg r st = (resp, st1)" and "nominal_step cfg r st"
  shows "(rows st1 = rows st \<and> seq st1 = seq st \<and>
            (\<forall>q \<in> set (map filepath (rows st)). files st1 q = files st q)) \<or>
         (\<exists>row. rows st1 = rows st @ [row] \<and> row_id row = seq st + 1 \<and>
            seq st1 = seq st + 1 \<and> filepath row \<notin> set (map filepath (rows st)) \<and>
            (\<forall>q \<in> set (map filepath (rows st)). files st1 q = files st q)) \<or>
         (\<exists>row \<in> set (rows st).
            rows st1 = filter (\<lambda>r. row_id r \<noteq> row_id row) (rows st) \<and>
            seq st1 = seq st \<and> files st1 = (files st)(filepath row := None))"
proof (cases r)
  case (Disk_upload env p)
  then obtain resp' where u: "disk_post_upload cfg env p st = (resp', st1)"
    using assms(1) by (auto split: prod.splits)
  from assms(2) Disk_upload have
    fresh: "\<And>pt. p = Some pt \<Longrightarrow> storage_path cfg env pt \<notin> set (map filepath (rows st))"
    by simp
  from disk_post_upload_cases [OF u] show ?thesis
  proof (elim disjE conjE exE)
    assume "rows st1 = rows st" "seq st1 = seq st" "files st1 = files st"
    then show ?thesis by simp
  next
    fix pt
    assume "rows st1 = rows st" "seq st1 = seq st" "p = Some pt"
      "\<forall>q. q \<noteq> storage_path cfg env pt \<longrightarrow> files st1 q = files st q"
    with fresh [of pt] have "rows st1 = rows st \<and> seq st1 = seq st \<and>
            (\<forall>q \<in> set (map filepath (rows st)). files st1 q = files st q)"
      by (metis)
    then show ?thesis by (rule disjI1)
  next
    fix pt stored
    assume a: "p = Some pt"
      "rows st1 = rows st @
          [\<lparr>row_id = seq st + 1, row_filename = part_filename pt,
            filepath = storage_path cfg env pt,
            row_filesize = length stored,
            row_created_at = SqlDatetime (current_timestamp env)\<rparr>]"
      "seq st1 = seq st + 1"
      "files st1 = (files st)(storage_path cfg env pt \<mapsto> stored)"
    let ?row = "\<lparr>row_id = seq st + 1, row_filename = part_filename pt,
            filepath = storage_path cfg env pt,
            row_filesize = length stored,
            row_created_at = SqlDatetime (current_timestamp env)\<rparr>"
    have "rows st1 = rows st @ [?row] \<and> row_id ?row = seq st + 1 \<and>
            seq st1 = seq st + 1 \<and> filepath ?row \<notin> set (map filepath (rows st)) \<and>
            (\<forall>q \<in> set (map filepath (rows st)). files st1 q = files st q)"
      using a fresh [OF a(1)] by (auto simp: image_iff)
    then show ?thesis by blast
  qed
next
  case (Disk_list err)
  with assms show ?thesis by auto
next
  case (Disk_download err i)
  with assms show ?thesis by auto
next
  case (Disk_delete env i)
  with assms have d: "disk_delete_document cfg env i st = (resp, st1)"
    and ok: "\<not> delete_error env" by simp_all
  from disk_delete_document_cases [OF d] show ?thesis
  proof
    assume "st1 = st \<and> resp \<noteq> Some (Response 200 (Msg True ''Document deleted successfully''))"
    then show ?thesis by simp
  next
    assume "\<exists>row \<in> set (rows st). text_as_id cfg i = Some (row_id row) \<and>
            files st1 = (files st)(filepath row := None) \<and> seq st1 = seq st \<and>
            (if delete_error env
             then rows st1 = rows st \<and>
                  resp = Some (Response 500 (Msg False ''Failed to delete document from database''))
             else rows st1 = filter (\<lambda>r. text_as_id cfg i \<noteq> Some (row_id r)) (rows st) \<and>
                  resp = Some (Response 200 (Msg True ''Document deleted successfully'')))"
    then obtain row where row: "row \<in> set (rows st)" "text_as_id cfg i = Some (row_id row)"
      "files st1 = (files st)(filepath row := None)" "seq st1 = seq st"
      "rows st1 = filter (\<lambda>r. text_as_id cfg i \<noteq> Some (row_id r)) (rows st)"
      using ok by auto
    have "filter (\<lambda>r. text_as_id cfg i \<noteq> Some (row_id r)) (rows st) =
        filter (\<lambda>r. row_id r \<noteq> row_id row) (rows st)"
      using row(2) by (intro filter_cong) auto
    with row(5) have "rows st1 = filter (\<lambda>r. row_id r \<noteq> row_id row) (rows st)" by simp
    with row(1,3,4) have "\<exists>row \<in> set (rows st).
            rows st1 = filter (\<lambda>r. row_id r \<noteq> row_id row) (rows st) \<and>
            seq st1 = seq st \<and> files st1 = (files st)(filepath row := None)"
      by blast
    then show ?thesis by blast
  qed
qed

lemma disk_handle_inv:
  assumes "disk_handle cfg r st = (resp, st1)" and "nominal_step cfg r st" and "disk_inv st"
  shows "disk_inv st1"
proof -
  from assms(3) have dist: "distinct (map row_id (rows st))"
    and paths: "distinct (map filepath (rows st))"
    and ids: "\<forall>x \<in> set (rows st). 1 \<le> row_id x \<and> row_id x \<le> seq st"
    and seq0: "0 \<le> seq st"
    by (simp_all add: disk_inv_def list_all_iff)
  from disk_handle_nominal [OF assms(1,2)] show ?thesis
  proof (elim disjE)
    assume "rows st1 = rows st \<and> seq st1 = seq st \<and>
            (\<forall>q \<in> set (map filepath (rows st)). files st1 q = files st q)"
    with assms(3) show ?thesis by (simp add: disk_inv_def)
  next
    assume "\<exists>row. rows st1 = rows st @ [row] \<and> row_id row = seq st + 1 \<and>
            seq st1 = seq st + 1 \<and> filepath row \<notin> set (map filepath (rows st)) \<and>
            (\<forall>q \<in> set (map filepath (rows st)). files st1 q = files st q)"
    then obtain row where row: "rows st1 = rows st @ [row]" "row_id row = seq st + 1"
      "seq st1 = seq st + 1" "filepath row \<notin> set (map filepath (rows st))" by blast
    from ids row(2) have "row_id row \<notin> set (map row_id (rows st))" by force
    with dist paths ids seq0 row show ?thesis
      by (simp add: disk_inv_def list_all_iff) force
  next
    assume "\<exists>row \<in> set (rows st).
            rows st1 = filter (\<lambda>r. row_id r \<noteq> row_id row) (rows st) \<and>
            seq st1 = seq st \<and> files st1 = (files st)(filepath row := None)"
    then obtain i where row: "rows st1 = filter (\<lambda>r. row_id r \<noteq> i) (rows st)"
      "seq st1 = seq st" by blast
    with dist paths ids seq0 show ?thesis
      by (simp add: disk_inv_def list_all_iff distinct_map_filter)
  qed
qed

lemma disk_inv_init: "disk_inv (disk_init fs)"
  by (simp add: disk_inv_def disk_init_def)

lemma disk_serve_inv:
  assumes "disk_serve cfg reqs st = (resps, st1)" and "nominal cfg reqs st" and "disk_inv st"
  shows "disk_inv st1"
  using assms
proof (induction reqs arbitrary: st resps st1)
  case Nil
  then show ?case by simp
next
  case (Cons r rs)
  obtain resp st' where h: "disk_handle cfg r st = (resp, st')"
    by (cases "disk_handle cfg r st")
  obtain rest st'' where s: "disk_serve cfg rs st' = (rest, st'')"
    by (cases "disk_serve cfg rs st'")
  from Cons.prems(1) h s have eq: "st1 = st''" by simp
  from Cons.prems(2) h have n: "nominal_step cfg r st" "nominal cfg rs st'" by simp_all
  have "disk_inv st'" using h n(1) Cons.prems(3) by (rule disk_handle_inv)
  from Cons.IH [OF s n(2) this] eq show ?case by simp
qed

lemma disk_handle_custody:
  assumes "disk_handle cfg r st = (resp, st1)" and "nominal_step cfg r st" and "disk_inv st"
    and "k \<le> seq st"
    and "\<forall>x \<in> set (rows st). row_id x = k \<longrightarrow>
           row_filename x = n \<and> files st (filepath x) = Some c"
  shows "k \<le> seq st1 \<and>
         (\<forall>x \<in> set (rows st1). row_id x = k \<longrightarrow>
            row_filename x = n \<and> files st1 (filepath x) = Some c)"
proof -
  from assms(3) have inj: "inj_on filepath (set (rows st))"
    by (simp add: disk_inv_def distinct_map)
  from disk_handle_nominal [OF assms(1,2)] show ?thesis
  proof (elim disjE)
    assume "rows st1 = rows st \<and> seq st1 = seq st \<and>
            (\<forall>q \<in> set (map filepath (rows st)). files st1 q = files st q)"
    with assms(4,5) show ?thesis by simp
  next
    assume "\<exists>row. rows st1 = rows st @ [row] \<and> row_id row = seq st + 1 \<and>
            seq st1 = seq st + 1 \<and> filepath row \<notin> set (map filepath (rows st)) \<and>
            (\<forall>q \<in> set (map filepath (rows st)). files st1 q = files st q)"
    then obtain row where row: "rows st1 = rows st @ [row]" "row_id row = seq st + 1"
      "seq st1 = seq st + 1"
      "\<forall>q \<in> set (map filepath (rows st)). files st1 q = files st q" by blast
    from row(2) assms(4) have "row_id row \<noteq> k" by simp
    with row assms(4,5) show ?thesis by auto
  next
    assume "\<exists>row \<in> set (rows st).
            rows st1 = filter (\<lambda>r. row_id r \<noteq> row_id row) (rows st) \<and>
            seq st1 = seq st \<and> files st1 = (files st)(filepath row := None)"
    then obtain row where row: "row \<in> set (rows st)"
      "rows st1 = filter (\<lambda>r. row_id r \<noteq> row_id row) (rows st)"
      "seq st1 = seq st" "files st1 = (files st)(filepath row := None)" by blast
    have "row_filename x = n \<and> files st1 (filepath x) = Some c"
      if x: "x \<in> set (rows st1)" "row_id x = k" for x
    proof -
      from x(1) row(2) have xin: "x \<in> set (rows st)" and ne: "row_id x \<noteq> row_id row" by simp_all
      from ne have "x \<noteq> row" by auto
      with inj xin row(1) have "filepath x \<noteq> filepath row" by (auto dest: inj_onD)
      with row(4) have "files st1 (filepath x) = files st (filepath x)" by simp
      with assms(5) xin x(2) show ?thesis by simp
    qed
    with row(3) assms(4) show ?thesis by simp
  qed
qed

lemma disk_serve_custody:
  assumes "disk_serve cfg reqs st = (resps, st1)" and "nominal cfg reqs st" and "disk_inv st"
    and "k \<le> seq st"
    and "\<forall>x \<in> set (rows st). row_id x = k \<longrightarrow>
           row_filename x = n \<and> files st (filepath x) = Some c"
  shows "\<forall>x \<in> set (rows st1). row_id x = k \<longrightarrow>
            row_filename x = n \<and> files st1 (filepath x) = Some c"
  using assms
proof (induction reqs arbitrary: st resps st1)
  case Nil
  then show ?case by simp
next
  case (Cons r rs)
  obtain resp st' where h: "disk_handle cfg r st = (resp, st')"
    by (cases "disk_handle cfg r st")
  obtain rest st'' where s: "disk_serve cfg rs st' = (rest, st'')"
    by (cases "disk_serve cfg rs st'")
  from Cons.prems(1) h s have eq: "st1 = st''" by simp
  from Cons.prems(2) h have n: "nominal_step cfg r st" "nominal cfg rs st'" by simp_all
  have i: "disk_inv st'" using h n(1) Cons.prems(3) by (rule disk_handle_inv)
  from disk_handle_custody [OF h n(1) Cons.prems(3,4,5)] have
    "k \<le> seq st'"
    "\<forall>x \<in> set (rows st'). row_id x = k \<longrightarrow> row_filename x = n \<and> files st' (filepath x) = Some c"
    by simp_all
  from Cons.IH [OF s n(2) i this] eq show ?case by simp
qed

lemma set_insert_desc: "set (insert_desc r rs) = insert r (set rs)"
  by (induction rs) auto

lemma set_order_by_created_at_desc: "set (order_by_created_at_desc rs) = set rs"
  by (induction rs) (simp_all add: set_insert_desc)

lemma download_after_upload_disk:
  assumes reach: "disk_serve cfg reqs0 (disk_init fs) = (rs0, st0)"
    and nom0: "nominal cfg reqs0 (disk_init fs)"
    and limit: "0 < fileSize_limit (max_file_size cfg)"
    and fresh: "nominal_step cfg (Disk_upload uenv (Some file)) st0"
    and up: "disk_post_upload cfg uenv (Some file) st0 =
               (Response 200 (UploadedDoc ok msg d), st1)"
    and later: "disk_serve cfg reqs1 st1 = (rs1, st2)"
    and nom1: "nominal cfg reqs1 st1"
    and listed: "json_id d \<in> set (listed_ids (disk_get_documents False st2))"
    and param: "text_as_id cfg s = Some (json_id d)"
    and header: "\<not> setHeader_throws (content_disposition (part_filename file))"
  shows "disk_get_document cfg False s st2 =
           Some (Response 200
             (SendFile (download_headers (part_filename file)) (part_data file)))"
proof -
  have inv0: "disk_inv st0" using reach nom0 disk_inv_init by (rule disk_serve_inv)
  have h: "disk_handle cfg (Disk_upload uenv (Some file)) st0 =
      (Some (Response 200 (UploadedDoc ok msg d)), st1)"
    using up by simp
  have inv1: "disk_inv st1" using h fresh inv0 by (rule disk_handle_inv)
  from disk_post_upload_cases [OF up] obtain stored where
    st: "busboy_file (fileSize_limit (max_file_size cfg)) (part_data file) = Some stored"
    and k: "json_id d = seq st0 + 1" and s1: "seq st1 = seq st0 + 1"
    and rws: "rows st1 = rows st0 @
        [\<lparr>row_id = seq st0 + 1, row_filename = part_filename file,
          filepath = storage_path cfg uenv file,
          row_filesize = length stored,
          row_created_at = SqlDatetime (current_timestamp uenv)\<rparr>]"
    and fls: "files st1 = (files st0)(storage_path cfg uenv file \<mapsto> stored)"
    by auto
  from st limit have stored: "stored = part_data file"
    by (simp add: busboy_file_positive split: if_splits)
  from inv0 have old: "\<forall>x \<in> set (rows st0). row_id x \<le> seq st0"
    by (simp add: disk_inv_def list_all_iff)
  have "json_id d \<le> seq st1" using k s1 by simp
  moreover have "\<forall>x \<in> set (rows st1). row_id x = json_id d \<longrightarrow>
      row_filename x = part_filename file \<and> files st1 (filepath x) = Some (part_data file)"
    using old rws fls k stored by auto
  ultimately have c: "\<forall>x \<in> set (rows st2). row_id x = json_id d \<longrightarrow>
      row_filename x = part_filename file \<and> files st2 (filepath x) = Some (part_data file)"
    using disk_serve_custody [OF later nom1 inv1] by blast
  from listed obtain x where x: "x \<in> set (rows st2)" "row_id x = json_id d"
    by (auto simp: disk_get_documents_def set_order_by_created_at_desc)
  let ?P = "\<lambda>r. text_as_id cfg s = Some (row_id r)"
  from x param have "?P x" by simp
  with x(1) have "\<exists>y \<in> set (rows st2). ?P y" by blast
  then obtain y where f: "find ?P (rows st2) = Some y"
    by (cases "find ?P (rows st2)") (auto simp: find_None_iff)
  then have y: "y \<in> set (rows st2)" "?P y" by (auto simp: find_Some_iff)
  with param have "row_id y = json_id d" by simp
  with c y(1) have "row_filename y = part_filename file"
    "files st2 (filepath y) = Some (part_data file)" by auto
  with f header show ?thesis by (simp add: disk_get_document_def)
qed

subsection \<open>Evaluation of longer sample runs\<close>

lemma fileSize_limit_minus_1: "fileSize_limit (Some ''-1'') = - 1"
  by (simp add: fileSize_limit_def parseInt_eval)

lemma line_feed_document_eq:
  "line_feed_document =
     \<lparr>documents = [\<lparr>doc_id = 1, filename = line_feed_name, filesize = 2, buffer = [37, 80],
                    created_at = IsoString 10\<rparr>],
      nextId = 2\<rparr>"
  by (simp add: line_feed_document_def line_feed_name_def post_upload_sample init_state_def)

lemma truncated_document_eq:
  "truncated_document =
     \<lparr>documents = [\<lparr>doc_id = 1, filename = ''a.pdf'', filesize = 0, buffer = [],
                    created_at = IsoString 10\<rparr>],
      nextId = 2\<rparr>"
  by (simp add: truncated_document_def post_upload_def multer_memory_def sample_pdf_def
      fileFilter_def fileSize_limit_minus_1 busboy_file_def upload_handler_def init_state_def
      Let_def)

lemma overwritten_row_eq:
  "overwritten_row =
     \<lparr>rows =
        [\<lparr>row_id = 1, row_filename = ''a.pdf'',
          filepath = ''/srv/uploads/1700000000000-1-a.pdf'', row_filesize = 2,
          row_created_at = SqlDatetime 10\<rparr>,
         \<lparr>row_id = 2, row_filename = ''a.pdf'',
          filepath = ''/srv/uploads/1700000000000-1-a.pdf'', row_filesize = 2,
          row_created_at = SqlDatetime 10\<rparr>],
      seq = 2,
      files = [''/srv/uploads/1700000000000-1-a.pdf'' \<mapsto> [68, 70]]\<rparr>"
  by (simp add: overwritten_row_def one_row_eq disk_post_upload_sample)

lemma two_documents_eq:
  "snd (post_upload None 20 (Some (sample_pdf ''b.pdf'' [68, 70])) one_document) =
     \<lparr>documents =
        [\<lparr>doc_id = 1, filename = ''a.pdf'', filesize = 2, buffer = [37, 80],
          created_at = IsoString 10\<rparr>,
         \<lparr>doc_id = 2, filename = ''b.pdf'', filesize = 2, buffer = [68, 70],
          created_at = IsoString 20\<rparr>],
      nextId = 3\<rparr>"
  by (simp add: one_document_eq post_upload_sample)

lemma two_rows_eq:
  "snd (disk_post_upload sample_cfg (sample_upload_env ''1700000000001-2'' 20)
         (Some (sample_pdf ''b.pdf'' [68, 70])) one_row) =
     \<lparr>rows =
        [\<lparr>row_id = 1, row_filename = ''a.pdf'',
          filepath = ''/srv/uploads/1700000000000-1-a.pdf'', row_filesize = 2,
          row_created_at = SqlDatetime 10\<rparr>,
         \<lparr>row_id = 2, row_filename = ''b.pdf'',
          filepath = ''/srv/uploads/1700000000001-2-b.pdf'', row_filesize = 2,
          row_created_at = SqlDatetime 20\<rparr>],
      seq = 2,
      files = [''/srv/uploads/1700000000000-1-a.pdf'' \<mapsto> [37, 80],
               ''/srv/uploads/1700000000001-2-b.pdf'' \<mapsto> [68, 70]]\<rparr>"
  by (simp add: one_row_eq disk_post_upload_sample)

subsection \<open>What a successful upload does\<close>

lemma post_upload_success:
  assumes "post_upload env now p st = (Response 200 body, st1)"
  shows "\<exists>file stored. p = Some file \<and>
     busboy_file (fileSize_limit env) (part_data file) = Some stored \<and>
     body = UploadedDoc True ''File uploaded successfully''
              \<lparr>json_id = nextId st, json_filename = part_filename file,
               json_filesize = length stored, json_created_at = IsoString now\<rparr> \<and>
     documents st1 = documents st @
        [\<lparr>doc_id = nextId st, filename = part_filename file,
          filesize = length stored, buffer = stored,
          created_at = IsoString now\<rparr>] \<and>
     get_documents st1 = Response 200 (DocList True (map to_json (documents st) @
        [\<lparr>json_id = nextId st, json_filename = part_filename file,
          json_filesize = length stored, json_created_at = IsoString now\<rparr>]))"
  using post_upload_cases [OF assms]
  by (auto simp: get_documents_def to_json_def)

lemma mset_insert_desc: "mset (insert_desc r rs) = add_mset r (mset rs)"
  by (induction rs) auto

lemma mset_order_by_created_at_desc: "mset (order_by_created_at_desc rs) = mset rs"
  by (induction rs) (simp_all add: mset_insert_desc)

lemma disk_post_upload_success:
  assumes "disk_post_upload cfg env p st = (Response 200 body, st1)"
  shows "\<exists>file stored. p = Some file \<and>
     busboy_file (fileSize_limit (max_file_size cfg)) (part_data file) = Some stored \<and>
     body = UploadedDoc True ''File uploaded successfully''
              \<lparr>json_id = seq st + 1, json_filename = part_filename file,
               json_filesize = length stored,
               json_created_at = IsoString (response_time env)\<rparr> \<and>
     rows st1 = rows st @
        [\<lparr>row_id = seq st + 1, row_filename = part_filename file,
          filepath = storage_path cfg env file,
          row_filesize = length stored,
          row_created_at = SqlDatetime (current_timestamp env)\<rparr>] \<and>
     files st1 (storage_path cfg env file) = Some stored"
  using disk_post_upload_cases [OF assms] by auto

lemma disk_handle_rows_bound:
  assumes "disk_handle cfg r st = (resp, st1)"
    and "\<forall>x \<in> set (rows st). row_id x \<le> seq st"
  shows "\<forall>x \<in> set (rows st1). row_id x \<le> seq st1"
  using disk_handle_step [OF assms(1)] assms(2) by (fastforce simp: subset_iff)

lemma disk_serve_rows_bound:
  assumes "disk_serve cfg reqs st = (resps, st1)"
    and "\<forall>x \<in> set (rows st). row_id x \<le> seq st"
  shows "\<forall>x \<in> set (rows st1). row_id x \<le> seq st1"
  using assms
proof (induction reqs arbitrary: st resps st1)
  case Nil
  then show ?case by simp
next
  case (Cons r rs)
  obtain resp st' where h: "disk_handle cfg r st = (resp, st')"
    by (cases "disk_handle cfg r st")
  obtain rest st'' where s: "disk_serve cfg rs st' = (rest, st'')"
    by (cases "disk_serve cfg rs st'")
  from Cons.prems(1) h s have eq: "st1 = st''" by simp
  from Cons.IH [OF s disk_handle_rows_bound [OF h Cons.prems(2)]] eq show ?case by simp
qed

text \<open>
  After every successful upload the list holds exactly one new record: its file name is
  the original name the client sent, its size is the number of bytes stored, and its id
  is none of the ids assigned before and none of the ids listed before. The response
  carries that record's id, file name and size.
\<close>

lemma upload_adds_one_record:
  "(serve env reqs0 init_state = (rs0, st0) \<and>
    post_upload env now p st0 = (Response 200 body, st1) \<longrightarrow>
      (\<exists>file stored. p = Some file \<and>
         busboy_file (fileSize_limit env) (part_data file) = Some stored \<and>
         body = UploadedDoc True ''File uploaded successfully''
                  \<lparr>json_id = nextId st0, json_filename = part_filename file,
                   json_filesize = length stored, json_created_at = IsoString now\<rparr> \<and>
         documents st1 = documents st0 @
            [\<lparr>doc_id = nextId st0, filename = part_filename file,
              filesize = length stored, buffer = stored,
              created_at = IsoString now\<rparr>] \<and>
         get_documents st1 = Response 200 (DocList True (map to_json (documents st0) @
            [\<lparr>json_id = nextId st0, json_filename = part_filename file,
              json_filesize = length stored, json_created_at = IsoString now\<rparr>]))) \<and>
      nextId st0 \<notin> set (assigned_ids rs0) \<and>
      nextId st0 \<notin> set (listed_ids (get_documents st0))) \<and>
   (disk_serve cfg dreqs0 (disk_init fs) = (drs0, dst0) \<and>
    disk_post_upload cfg uenv p dst0 = (Response 200 dbody, dst1) \<longrightarrow>
      (\<exists>file stored. p = Some file \<and>
         busboy_file (fileSize_limit (max_file_size cfg)) (part_data file) = Some stored \<and>
         dbody = UploadedDoc True ''File uploaded successfully''
                  \<lparr>json_id = seq dst0 + 1, json_filename = part_filename file,
                   json_filesize = length stored,
                   json_created_at = IsoString (response_time uenv)\<rparr> \<and>
         files dst1 (storage_path cfg uenv file) = Some stored \<and>
         (\<exists>listed0 listed1.
            disk_get_documents False dst0 = Response 200 (RowList True listed0) \<and>
            disk_get_documents False dst1 = Response 200 (RowList True listed1) \<and>
            mset listed1 = add_mset
              \<lparr>row_id = seq dst0 + 1, row_filename = part_filename file,
               filepath = storage_path cfg uenv file,
               row_filesize = length stored,
               row_created_at = SqlDatetime (current_timestamp uenv)\<rparr> (mset listed0))) \<and>
      seq dst0 + 1 \<notin> set (disk_assigned_ids drs0) \<and>
      seq dst0 + 1 \<notin> set (listed_ids (disk_get_documents False dst0)))"
proof (intro conjI impI)
  assume a: "serve env reqs0 init_state = (rs0, st0) \<and>
    post_upload env now p st0 = (Response 200 body, st1)"
  then have reach: "serve env reqs0 init_state = (rs0, st0)"
    and up: "post_upload env now p st0 = (Response 200 body, st1)" by simp_all
  from post_upload_success [OF up]
  show "\<exists>file stored. p = Some file \<and>
         busboy_file (fileSize_limit env) (part_data file) = Some stored \<and>
         body = UploadedDoc True ''File uploaded successfully''
                  \<lparr>json_id = nextId st0, json_filename = part_filename file,
                   json_filesize = length stored, json_created_at = IsoString now\<rparr> \<and>
         documents st1 = documents st0 @
            [\<lparr>doc_id = nextId st0, filename = part_filename file,
              filesize = length stored, buffer = stored,
              created_at = IsoString now\<rparr>] \<and>
         get_documents st1 = Response 200 (DocList True (map to_json (documents st0) @
            [\<lparr>json_id = nextId st0, json_filename = part_filename file,
              json_filesize = length stored, json_created_at = IsoString now\<rparr>]))" .
  from serve_ids [OF reach] show "nextId st0 \<notin> set (assigned_ids rs0)"
    by (auto simp: list_all_iff)
  have "mem_inv st0" using mem_inv_init reach by (rule serve_mem_inv)
  then show "nextId st0 \<notin> set (listed_ids (get_documents st0))"
    by (auto simp: mem_inv_def list_all_iff get_documents_def to_json_def)
next
  assume a: "disk_serve cfg dreqs0 (disk_init fs) = (drs0, dst0) \<and>
    disk_post_upload cfg uenv p dst0 = (Response 200 dbody, dst1)"
  then have reach: "disk_serve cfg dreqs0 (disk_init fs) = (drs0, dst0)"
    and up: "disk_post_upload cfg uenv p dst0 = (Response 200 dbody, dst1)" by simp_all
  from disk_post_upload_success [OF up] obtain pt stored where pt: "p = Some pt"
    "busboy_file (fileSize_limit (max_file_size cfg)) (part_data pt) = Some stored"
    "dbody = UploadedDoc True ''File uploaded successfully''
              \<lparr>json_id = seq dst0 + 1, json_filename = part_filename pt,
               json_filesize = length stored,
               json_created_at = IsoString (response_time uenv)\<rparr>"
    "rows dst1 = rows dst0 @
        [\<lparr>row_id = seq dst0 + 1, row_filename = part_filename pt,
          filepath = storage_path cfg uenv pt,
          row_filesize = length stored,
          row_created_at = SqlDatetime (current_timestamp uenv)\<rparr>]"
    "files dst1 (storage_path cfg uenv pt) = Some stored"
    by blast
  have "mset (order_by_created_at_desc (rows dst1)) = add_mset
              \<lparr>row_id = seq dst0 + 1, row_filename = part_filename pt,
               filepath = storage_path cfg uenv pt,
               row_filesize = length stored,
               row_created_at = SqlDatetime (current_timestamp uenv)\<rparr>
              (mset (order_by_created_at_desc (rows dst0)))"
    by (simp add: mset_order_by_created_at_desc pt(4))
  with pt show "\<exists>file stored. p = Some file \<and>
         busboy_file (fileSize_limit (max_file_size cfg)) (part_data file) = Some stored \<and>
         dbody = UploadedDoc True ''File uploaded successfully''
                  \<lparr>json_id = seq dst0 + 1, json_filename = part_filename file,
                   json_filesize = length stored,
                   json_created_at = IsoString (response_time uenv)\<rparr> \<and>
         files dst1 (storage_path cfg uenv file) = Some stored \<and>
         (\<exists>listed0 listed1.
            disk_get_documents False dst0 = Response 200 (RowList True listed0) \<and>
            disk_get_documents False dst1 = Response 200 (RowList True listed1) \<and>
            mset listed1 = add_mset
              \<lparr>row_id = seq dst0 + 1, row_filename = part_filename file,
               filepath = storage_path cfg uenv file,
               row_filesize = length stored,
               row_created_at = SqlDatetime (current_timestamp uenv)\<rparr> (mset listed0))"
    by (simp add: disk_get_documents_def)
  from disk_serve_ids [OF reach] show "seq dst0 + 1 \<notin> set (disk_assigned_ids drs0)"
    by (auto simp: list_all_iff)
  have "\<forall>x \<in> set (rows dst0). row_id x \<le> seq dst0"
    using reach by (rule disk_serve_rows_bound) (simp add: disk_init_def)
  then show "seq dst0 + 1 \<notin> set (listed_ids (disk_get_documents False dst0))"
    by (auto simp: disk_get_documents_def set_order_by_created_at_desc)
qed

subsection \<open>Ids that are absent\<close>

lemma handle_absent:
  assumes "handle env r st = (resp, st1)" and "k < nextId st"
    and "\<forall>d \<in> set (documents st). doc_id d \<noteq> k"
  shows "k < nextId st1 \<and> (\<forall>d \<in> set (documents st1). doc_id d \<noteq> k)"
proof -
  have "k < nextId st1" using handle_nextId_mono [OF assms(1)] assms(2) by simp
  moreover have "doc_id d \<noteq> k" if "d \<in> set (documents st1)" for d
    using handle_documents [OF assms(1) that] assms(2,3) by auto
  ultimately show ?thesis by blast
qed

lemma serve_absent:
  assumes "serve env reqs st = (resps, st1)" and "k < nextId st"
    and "\<forall>d \<in> set (documents st). doc_id d \<noteq> k"
  shows "\<forall>d \<in> set (documents st1). doc_id d \<noteq> k"
  using assms
proof (induction reqs arbitrary: st resps st1)
  case Nil
  then show ?case by simp
next
  case (Cons r rs)
  obtain resp st' where h: "handle env r st = (resp, st')" by (cases "handle env r st")
  obtain rest st'' where s: "serve env rs st' = (rest, st'')" by (cases "serve env rs st'")
  from Cons.prems(1) h s have eq: "st1 = st''" by simp
  from handle_absent [OF h Cons.prems(2,3)] have
    "k < nextId st'" "\<forall>d \<in> set (documents st'). doc_id d \<noteq> k" by simp_all
  from Cons.IH [OF s this] eq show ?case by simp
qed

lemma serve_documents_assigned:
  assumes "serve env reqs st = (resps, st1)" and "d \<in> set (documents st1)"
  shows "d \<in> set (documents st) \<or> doc_id d \<in> set (assigned_ids resps)"
  using assms
proof (induction reqs arbitrary: st resps st1)
  case Nil
  then show ?case by simp
next
  case (Cons r rs)
  obtain resp st' where h: "handle env r st = (resp, st')" by (cases "handle env r st")
  obtain rest st'' where s: "serve env rs st' = (rest, st'')" by (cases "serve env rs st'")
  from Cons.prems(1) h s have eq: "st1 = st''" "resps = resp # rest" by simp_all
  have app: "assigned_ids (resp # rest) = assigned_id resp @ assigned_ids rest"
    by (simp add: assigned_ids_def)
  from Cons.IH [OF s] Cons.prems(2) eq have
    "d \<in> set (documents st') \<or> doc_id d \<in> set (assigned_ids rest)" by simp
  then show ?case
  proof
    assume "d \<in> set (documents st')"
    with handle_step [OF h] show ?thesis unfolding eq app by auto
  next
    assume "doc_id d \<in> set (assigned_ids rest)"
    then show ?thesis unfolding eq app by simp
  qed
qed

lemma disk_handle_absent:
  assumes "disk_handle cfg r st = (resp, st1)" and "k \<le> seq st"
    and "\<forall>x \<in> set (rows st). row_id x \<noteq> k"
  shows "k \<le> seq st1 \<and> (\<forall>x \<in> set (rows st1). row_id x \<noteq> k)"
  using disk_handle_step [OF assms(1)] assms(2,3) by (fastforce simp: subset_iff)

lemma disk_serve_absent:
  assumes "disk_serve cfg reqs st = (resps, st1)" and "k \<le> seq st"
    and "\<forall>x \<in> set (rows st). row_id x \<noteq> k"
  shows "\<forall>x \<in> set (rows st1). row_id x \<noteq> k"
  using assms
proof (induction reqs arbitrary: st resps st1)
  case Nil
  then show ?case by simp
next
  case (Cons r rs)
  obtain resp st' where h: "disk_handle cfg r st = (resp, st')"
    by (cases "disk_handle cfg r st")
  obtain rest st'' where s: "disk_serve cfg rs st' = (rest, st'')"
    by (cases "disk_serve cfg rs st'")
  from Cons.prems(1) h s have eq: "st1 = st''" by simp
  from disk_handle_absent [OF h Cons.prems(2,3)] have
    "k \<le> seq st'" "\<forall>x \<in> set (rows st'). row_id x \<noteq> k" by simp_all
  from Cons.IH [OF s this] eq show ?case by simp
qed

lemma disk_serve_rows_assigned:
  assumes "disk_serve cfg reqs st = (resps, st1)" and "x \<in> set (rows st1)"
  shows "x \<in> set (rows st) \<or> row_id x \<in> set (disk_assigned_ids resps)"
  using assms
proof (induction reqs arbitrary: st resps st1)
  case Nil
  then show ?case by simp
next
  case (Cons r rs)
  obtain resp st' where h: "disk_handle cfg r st = (resp, st')"
    by (cases "disk_handle cfg r st")
  obtain rest st'' where s: "disk_serve cfg rs st' = (rest, st'')"
    by (cases "disk_serve cfg rs st'")
  from Cons.prems(1) h s have eq: "st1 = st''" "resps = resp # rest" by simp_all
  have app: "disk_assigned_ids (resp # rest) = disk_assigned_ids [resp] @ disk_assigned_ids rest"
    by (simp add: disk_assigned_ids_def)
  from Cons.IH [OF s] Cons.prems(2) eq have
    "x \<in> set (rows st') \<or> row_id x \<in> set (disk_assigned_ids rest)" by simp
  then show ?case
  proof
    assume "x \<in> set (rows st')"
    with disk_handle_step [OF h] show ?thesis unfolding eq app by auto
  next
    assume "row_id x \<in> set (disk_assigned_ids rest)"
    then show ?thesis unfolding eq app by simp
  qed
qed

lemma absent_iff: "absent s st \<longleftrightarrow> (\<forall>d \<in> set (documents st). Some (doc_id d) \<noteq> parseInt s)"
  by (auto simp: absent_def find_None_iff)

lemma disk_absent_iff:
  "disk_absent cfg s st \<longleftrightarrow> (\<forall>r \<in> set (rows st). text_as_id cfg s \<noteq> Some (row_id r))"
  by (auto simp: disk_absent_def find_None_iff)

lemma absent_after_delete:
  assumes reach: "serve env reqs0 init_state = (rs0, st0)"
    and del: "delete_document s st0 = (Response 200 b, st1)"
    and later: "serve env reqs1 st1 = (rs1, st2)"
  shows "absent s st2"
proof -
  have inv: "mem_inv st0" using mem_inv_init reach by (rule serve_mem_inv)
  from del have "findIndex (\<lambda>doc. Some (doc_id doc) = parseInt s) (documents st0) \<noteq> - 1"
    and n: "nextId st1 = nextId st0"
    by (auto simp: delete_document_def Let_def split: if_splits)
  then obtain d where d: "d \<in> set (documents st0)" "Some (doc_id d) = parseInt s"
    by (auto simp: findIndex_none_iff)
  from inv d(1) have "doc_id d < nextId st0" by (simp add: mem_inv_def list_all_iff)
  with n have lt: "doc_id d < nextId st1" by simp
  from d(2) have p: "parseInt s = Some (doc_id d)" by simp
  from delete_document_removes [OF inv del] p
  have "\<forall>x \<in> set (documents st1). doc_id x \<noteq> doc_id d" by auto
  from serve_absent [OF later lt this] p show ?thesis
    by (auto simp: absent_iff)
qed

lemma absent_never_assigned:
  assumes reach: "serve env reqs0 init_state = (rs0, st0)"
    and "parseInt s = Some k" and "k \<notin> set (assigned_ids rs0)"
  shows "absent s st0"
proof -
  have "doc_id d \<noteq> k" if "d \<in> set (documents st0)" for d
    using serve_documents_assigned [OF reach that] assms(3) by (auto simp: init_state_def)
  with assms(2) show ?thesis by (auto simp: absent_iff)
qed

lemma disk_absent_after_delete:
  assumes reach: "disk_serve cfg reqs0 (disk_init fs) = (rs0, st0)"
    and del: "disk_delete_document cfg env s st0 = (Some (Response 200 b), st1)"
    and later: "disk_serve cfg reqs1 st1 = (rs1, st2)"
  shows "disk_absent cfg s st2"
proof -
  have bound: "\<forall>x \<in> set (rows st0). row_id x \<le> seq st0"
    using reach by (rule disk_serve_rows_bound) (simp add: disk_init_def)
  from disk_delete_document_cases [OF del] have "st1 = st0 \<and> b \<noteq> Msg True ''Document deleted successfully'' \<or>
    (\<exists>row \<in> set (rows st0). text_as_id cfg s = Some (row_id row) \<and> seq st1 = seq st0 \<and>
       rows st1 = filter (\<lambda>r. text_as_id cfg s \<noteq> Some (row_id r)) (rows st0))"
    by (auto split: if_splits)
  moreover have "b = Msg True ''Document deleted successfully''"
    using del by (auto simp: disk_delete_document_def Let_def split: if_splits option.splits)
  ultimately obtain row where row: "row \<in> set (rows st0)" "text_as_id cfg s = Some (row_id row)"
    "seq st1 = seq st0" "rows st1 = filter (\<lambda>r. text_as_id cfg s \<noteq> Some (row_id r)) (rows st0)"
    by blast
  from bound row(1,3) have le: "row_id row \<le> seq st1" by simp
  from row(2,4) have "\<forall>x \<in> set (rows st1). row_id x \<noteq> row_id row" by auto
  from disk_serve_absent [OF later le this] row(2) show ?thesis
    by (auto simp: disk_absent_iff)
qed

lemma disk_absent_never_assigned:
  assumes reach: "disk_serve cfg reqs0 (disk_init fs) = (rs0, st0)"
    and "text_as_id cfg s = Some k" and "k \<notin> set (disk_assigned_ids rs0)"
  shows "disk_absent cfg s st0"
proof -
  have "row_id x \<noteq> k" if "x \<in> set (rows st0)" for x
    using disk_serve_rows_assigned [OF reach that] assms(3) by (auto simp: disk_init_def)
  with assms(2) show ?thesis by (auto simp: disk_absent_iff)
qed

lemma parseInt_999: "parseInt ''999'' = Some 999"
  by (simp add: parseInt_eval)

section \<open>The claims\<close>

text \<open>
  C9. Ids are positive integers handed out in strictly increasing order and never
  reused: in the sequence of ids that the responses to any sequence of requests
  (uploads, lists, downloads and deletes, in any order) report as newly assigned, every
  id is at least 1 and strictly greater than every id assigned before it, whether or
  not the earlier record has been deleted in between. This holds for the counter
  \<open>nextId\<close> of the in-memory variant and for the autoincrement rowid of the sqlite
  variant.
\<close>

theorem ids_increasing_never_reused:
  "sorted_wrt (<) (assigned_ids (fst (serve env reqs init_state))) \<and>
   list_all (\<lambda>i. 1 \<le> i) (assigned_ids (fst (serve env reqs init_state))) \<and>
   sorted_wrt (<) (disk_assigned_ids (fst (disk_serve cfg dreqs (disk_init fs)))) \<and>
   list_all (\<lambda>i. 1 \<le> i) (disk_assigned_ids (fst (disk_serve cfg dreqs (disk_init fs))))"
proof -
  obtain resps st1 where m: "serve env reqs init_state = (resps, st1)"
    by (cases "serve env reqs init_state")
  obtain dresps dst1 where d: "disk_serve cfg dreqs (disk_init fs) = (dresps, dst1)"
    by (cases "disk_serve cfg dreqs (disk_init fs)")
  from serve_ids [OF m] have "sorted_wrt (<) (assigned_ids resps)"
    and "list_all (\<lambda>i. 1 \<le> i) (assigned_ids resps)"
    by (simp_all add: init_state_def list_all_iff)
  moreover from disk_serve_ids [OF d] have "sorted_wrt (<) (disk_assigned_ids dresps)"
    and "list_all (\<lambda>i. 1 \<le> i) (disk_assigned_ids dresps)"
    by (auto simp: disk_init_def list_all_iff)
  ultimately show ?thesis using m d by simp
qed

text \<open>Two uploads, a delete of the second document and a third upload get the ids 1, 2, 3.\<close>

theorem ids_increasing_never_reused_witness:
  "assigned_ids (fst (serve None
      [POST_upload 10 (Some (sample_pdf ''a.pdf'' [37, 80])),
       POST_upload 20 (Some (sample_pdf ''b.pdf'' [68, 70])),
       DELETE_document ''2'',
       POST_upload 30 (Some (sample_pdf ''c.pdf'' [70, 1]))] init_state)) = [1, 2, 3] \<and>
   disk_assigned_ids (fst (disk_serve sample_cfg
      [Disk_upload (sample_upload_env ''1700000000000-1'' 10) (Some (sample_pdf ''a.pdf'' [37, 80])),
       Disk_upload (sample_upload_env ''1700000000001-2'' 20) (Some (sample_pdf ''b.pdf'' [68, 70])),
       Disk_delete sample_delete_env ''2'',
       Disk_upload (sample_upload_env ''1700000000002-3'' 30) (Some (sample_pdf ''c.pdf'' [70, 1]))]
      (disk_init Map.empty))) = [1, 2, 3] \<and>
   sorted_wrt (<) [1, 2, 3 :: int] \<and> list_all (\<lambda>i. 1 \<le> i) [1, 2, 3 :: int]"
  using ids_increasing_never_reused [of None
      "[POST_upload 10 (Some (sample_pdf ''a.pdf'' [37, 80])),
        POST_upload 20 (Some (sample_pdf ''b.pdf'' [68, 70])),
        DELETE_document ''2'',
        POST_upload 30 (Some (sample_pdf ''c.pdf'' [70, 1]))]"
      sample_cfg
      "[Disk_upload (sample_upload_env ''1700000000000-1'' 10) (Some (sample_pdf ''a.pdf'' [37, 80])),
        Disk_upload (sample_upload_env ''1700000000001-2'' 20) (Some (sample_pdf ''b.pdf'' [68, 70])),
        Disk_delete sample_delete_env ''2'',
        Disk_upload (sample_upload_env ''1700000000002-3'' 30) (Some (sample_pdf ''c.pdf'' [70, 1]))]"
      Map.empty]
  by (simp add: post_upload_sample init_state_def assigned_ids_def delete_document_def
      parseInt_digit_2 splice1_def disk_post_upload_sample disk_init_def disk_assigned_ids_def
      disk_delete_document_def sample_delete_env_def sample_cfg_sel)

text \<open>
  C3. The claim is that the list is newest first: after uploads A, B, C it is [C, B, A].
  The in-memory variant answers \<^verbatim>\<open>documents.map(...)\<close> over an array that uploads
  extend with \<^verbatim>\<open>push\<close>: evaluated on three uploads, the list is [A, B, C], oldest first.
\<close>

theorem in_memory_list_is_oldest_first:
  "fst (serve None
      [POST_upload 10 (Some (sample_pdf ''a.pdf'' [37, 80])),
       POST_upload 20 (Some (sample_pdf ''b.pdf'' [68, 70])),
       POST_upload 30 (Some (sample_pdf ''c.pdf'' [70, 1])),
       GET_documents] init_state) ! 3 =
   Response 200 (DocList True
     [\<lparr>json_id = 1, json_filename = ''a.pdf'', json_filesize = 2, json_created_at = IsoString 10\<rparr>,
      \<lparr>json_id = 2, json_filename = ''b.pdf'', json_filesize = 2, json_created_at = IsoString 20\<rparr>,
      \<lparr>json_id = 3, json_filename = ''c.pdf'', json_filesize = 2, json_created_at = IsoString 30\<rparr>])"
  by (simp add: post_upload_sample init_state_def get_documents_def to_json_def)

text \<open>
  C5. An upload whose file is not declared \<^verbatim>\<open>application/pdf\<close> changes nothing: in
  both variants the state after the request is the state before it (no record, no
  stored bytes). When the file comes in the field \<^verbatim>\<open>document\<close> the answer is the
  validation failure 400, with the message of the file filter (or, for a part without
  a file name, the message of the handler that found no file).
\<close>

theorem non_pdf_upload_rejected_without_mutation:
  assumes "part_mimetype file \<noteq> ''application/pdf''"
  shows "snd (post_upload env now (Some file) st) = st \<and>
         snd (disk_post_upload cfg uenv (Some file) dst) = dst \<and>
         (part_fieldname file = ''document'' \<longrightarrow>
            fst (post_upload env now (Some file) st) =
              Response 400 (Msg False (if part_filename file = []
                 then ''No file uploaded or invalid file type''
                 else ''Only PDF files are allowed'')) \<and>
            fst (disk_post_upload cfg uenv (Some file) dst) =
              Response 400 (Msg False (if part_filename file = []
                 then ''No file uploaded or invalid file type''
                 else ''Only PDF files are allowed'')))"
  using assms
  by (simp add: post_upload_def multer_memory_def fileFilter_def upload_handler_def
      disk_post_upload_def multer_disk_def disk_upload_handler_def)

theorem non_pdf_upload_rejected_without_mutation_witness:
  "post_upload None 10 (Some sample_png) init_state =
     (Response 400 (Msg False ''Only PDF files are allowed''), init_state) \<and>
   disk_post_upload sample_cfg (sample_upload_env ''1700000000000-1'' 10) (Some sample_png)
       (disk_init Map.empty) =
     (Response 400 (Msg False ''Only PDF files are allowed''), disk_init Map.empty)"
  using non_pdf_upload_rejected_without_mutation [of sample_png None 10 init_state
      sample_cfg "sample_upload_env ''1700000000000-1'' 10" "disk_init Map.empty"]
  by (simp add: sample_png_def prod_eq_iff)

text \<open>
  C6. An upload declared \<^verbatim>\<open>application/pdf\<close> whose content is longer than the
  configured maximum is rejected with the validation failure 400 \<open>File too large\<close>, and
  the state after the request is the state before it: no record, no stored buffer. The
  maximum is \<^verbatim>\<open>MAX_FILE_SIZE\<close> of the environment, taken to be a positive number of
  bytes, and 10,485,760 bytes when that is unset. The size that counts is the number of
  bytes received.
\<close>

theorem oversized_pdf_rejected_store_unchanged:
  assumes "part_mimetype file = ''application/pdf''"
    and "part_fieldname file = ''document''" and "part_filename file \<noteq> []"
    and "0 < fileSize_limit env"
    and "int (length (part_data file)) > fileSize_limit env"
  shows "post_upload env now (Some file) st =
           (Response 400 (Msg False ''File too large. Maximum size is 10MB.''), st) \<and>
         get_documents (snd (post_upload env now (Some file) st)) = get_documents st \<and>
         fileSize_limit None = 10485760"
  using assms
  by (simp add: post_upload_def multer_memory_def fileFilter_def fileSize_limit_default
      busboy_file_positive)

theorem oversized_pdf_rejected_store_unchanged_witness:
  "post_upload None 10 (Some (sample_pdf ''big.pdf'' (replicate 10485761 0))) init_state =
     (Response 400 (Msg False ''File too large. Maximum size is 10MB.''), init_state) \<and>
   0 < fileSize_limit None \<and>
   int (length (part_data (sample_pdf ''big.pdf'' (replicate 10485761 0)))) > fileSize_limit None"
  using oversized_pdf_rejected_store_unchanged
    [of "sample_pdf ''big.pdf'' (replicate 10485761 0)" None 10 init_state]
  by (simp add: sample_pdf_def fileSize_limit_default)

text \<open>
  C10, as stated, fails: \<^verbatim>\<open>parseInt\<close> is called without a radix, so an id string
  that begins \<^verbatim>\<open>0x\<close> is read as a hexadecimal numeral. The string \<^verbatim>\<open>0x1\<close> has the
  numeric prefix \<^verbatim>\<open>0\<close>, yet download and delete treat it as the id 1 and act on that
  document, while the same requests with \<^verbatim>\<open>0\<close> are not found.
\<close>

theorem numeric_prefix_hex_counterexample:
  "get_document ''0x1'' one_document =
     Response 200 (SendFile (download_headers ''a.pdf'') [37, 80]) \<and>
   get_document ''0'' one_document = Response 404 (Msg False ''Document not found'') \<and>
   fst (delete_document ''0x1'' one_document) =
     Response 200 (Msg True ''Document deleted successfully'') \<and>
   fst (delete_document ''0'' one_document) = Response 404 (Msg False ''Document not found'')"
  by (simp add: one_document_eq get_document_def get_document_handler_def delete_document_def
      parseInt_eval setHeader_throws_content_disposition invalid_header_char_def)

text \<open>
  C10, amended. In the in-memory variant the id path parameter of download and delete
  goes through \<^verbatim>\<open>parseInt\<close>. For every id string that does not parse to a number,
  both operations answer not-found and leave the state as it is. For every id string
  made of a non-empty run of decimal digits followed by a rest that does not begin with
  a digit, and that does not begin with \<^verbatim>\<open>0x\<close> or \<^verbatim>\<open>0X\<close>, both operations behave
  exactly as with the run of digits alone.
\<close>

theorem parseInt_id_parameter:
  "(parseInt s = None \<longrightarrow>
      get_document s st = Response 404 (Msg False ''Document not found'') \<and>
      delete_document s st = (Response 404 (Msg False ''Document not found''), st)) \<and>
   (ds \<noteq> [] \<and> list_all (is_digit 10) ds \<and> (r = [] \<or> \<not> is_digit 10 (hd r)) \<and>
    \<not> (ds = ''0'' \<and> r \<noteq> [] \<and> (hd r = CHR ''x'' \<or> hd r = CHR ''X'')) \<longrightarrow>
      get_document (ds @ r) st = get_document ds st \<and>
      delete_document (ds @ r) st = delete_document ds st)"
proof (intro conjI impI)
  assume n: "parseInt s = None"
  then have "\<forall>d \<in> set (documents st). Some (doc_id d) \<noteq> parseInt s" by simp
  then show "get_document s st = Response 404 (Msg False ''Document not found'')"
    and "delete_document s st = (Response 404 (Msg False ''Document not found''), st)"
    using get_document_absent [of st s] delete_document_absent [of st s]
    by (simp_all add: not_found_def)
next
  assume a: "ds \<noteq> [] \<and> list_all (is_digit 10) ds \<and> (r = [] \<or> \<not> is_digit 10 (hd r)) \<and>
    \<not> (ds = ''0'' \<and> r \<noteq> [] \<and> (hd r = CHR ''x'' \<or> hd r = CHR ''X''))"
  then have "parseInt (ds @ r) = Some (int (digits_value 10 ds))"
    by (intro parseInt_decimal_prefix) simp_all
  moreover from a have "parseInt (ds @ []) = Some (int (digits_value 10 ds))"
    by (intro parseInt_decimal_prefix) simp_all
  ultimately have eq: "parseInt (ds @ r) = parseInt ds" by simp
  show "get_document (ds @ r) st = get_document ds st"
    by (simp add: get_document_def get_document_handler_def eq)
  show "delete_document (ds @ r) st = delete_document ds st"
    by (simp add: delete_document_def eq)
qed

theorem parseInt_id_parameter_witness:
  "parseInt ''abc'' = None \<and>
   get_document ''abc'' one_document = Response 404 (Msg False ''Document not found'') \<and>
   delete_document ''abc'' one_document =
     (Response 404 (Msg False ''Document not found''), one_document) \<and>
   get_document ''1abc'' one_document =
     Response 200 (SendFile (download_headers ''a.pdf'') [37, 80]) \<and>
   get_document ''1abc'' one_document = get_document ''1'' one_document \<and>
   delete_document ''1abc'' one_document = delete_document ''1'' one_document \<and>
   fst (delete_document ''1abc'' one_document) =
     Response 200 (Msg True ''Document deleted successfully'')"
proof -
  have n: "parseInt ''abc'' = None" by (simp add: parseInt_eval)
  have d: "''1'' \<noteq> [] \<and> list_all (is_digit 10) ''1'' \<and>
      (''abc'' = [] \<or> \<not> is_digit 10 (hd ''abc'')) \<and>
      \<not> (''1'' = ''0'' \<and> ''abc'' \<noteq> [] \<and> (hd ''abc'' = CHR ''x'' \<or> hd ''abc'' = CHR ''X''))"
    by (simp add: is_digit_def digit_val_def)
  have g: "get_document ''1'' one_document =
      Response 200 (SendFile (download_headers ''a.pdf'') [37, 80])"
    by (simp add: one_document_eq get_document_def get_document_handler_def parseInt_digit_1
        setHeader_throws_content_disposition invalid_header_char_def)
  have e: "fst (delete_document ''1'' one_document) =
      Response 200 (Msg True ''Document deleted successfully'')"
    by (simp add: one_document_eq delete_document_def parseInt_digit_1)
  from parseInt_id_parameter [of "''abc''" one_document "''1''" "''abc''"] n d g e
  show ?thesis by simp
qed

text \<open>
  C7. Delete of an existing record in the sqlite variant removes the blob first and the
  metadata row second, and a blob that is already absent is not an error. For a record
  that the lookup finds:
  \<^item> when the file at its path is absent, the delete still succeeds and removes the row,
    and the file system is as before;
  \<^item> when the file is present, it is unlinked and the row is removed;
  \<^item> the unlink comes before the row's removal: when the \<^verbatim>\<open>DELETE\<close> statement then
    fails, the file is already gone and the row is still there; when the unlink itself
    throws, nothing has changed and the row is still there.
\<close>

theorem delete_blob_first_and_idempotent:
  assumes "\<not> select_error env"
    and "find (\<lambda>r. text_as_id cfg s = Some (row_id r)) (rows st) = Some row"
  shows "(files st (filepath row) = None \<and> \<not> delete_error env \<longrightarrow>
            disk_delete_document cfg env s st =
              (Some (Response 200 (Msg True ''Document deleted successfully'')),
               st\<lparr>rows := filter (\<lambda>r. text_as_id cfg s \<noteq> Some (row_id r)) (rows st)\<rparr>)) \<and>
         (files st (filepath row) \<noteq> None \<and> \<not> unlink_throws env \<and> \<not> delete_error env \<longrightarrow>
            disk_delete_document cfg env s st =
              (Some (Response 200 (Msg True ''Document deleted successfully'')),
               st\<lparr>files := (files st)(filepath row := None),
                  rows := filter (\<lambda>r. text_as_id cfg s \<noteq> Some (row_id r)) (rows st)\<rparr>)) \<and>
         (files st (filepath row) \<noteq> None \<and> \<not> unlink_throws env \<and> delete_error env \<longrightarrow>
            disk_delete_document cfg env s st =
              (Some (Response 500 (Msg False ''Failed to delete document from database'')),
               st\<lparr>files := (files st)(filepath row := None)\<rparr>)) \<and>
         (files st (filepath row) \<noteq> None \<and> unlink_throws env \<longrightarrow>
            disk_delete_document cfg env s st = (None, st))"
  using assms by (simp add: disk_delete_document_def Let_def)

theorem delete_blob_first_and_idempotent_witness:
  "find (\<lambda>r. text_as_id sample_cfg ''1'' = Some (row_id r)) (rows dangling_record) =
     Some \<lparr>row_id = 1, row_filename = ''a.pdf'',
           filepath = ''/srv/uploads/1700000000000-1-a.pdf'', row_filesize = 2,
           row_created_at = SqlDatetime 10\<rparr> \<and>
   files dangling_record ''/srv/uploads/1700000000000-1-a.pdf'' = None \<and>
   disk_delete_document sample_cfg sample_delete_env ''1'' dangling_record =
     (Some (Response 200 (Msg True ''Document deleted successfully'')),
      dangling_record\<lparr>rows := []\<rparr>) \<and>
   files one_row ''/srv/uploads/1700000000000-1-a.pdf'' = Some [37, 80] \<and>
   disk_delete_document sample_cfg sample_delete_env ''1'' one_row =
     (Some (Response 200 (Msg True ''Document deleted successfully'')),
      one_row\<lparr>files := (files one_row)(''/srv/uploads/1700000000000-1-a.pdf'' := None),
              rows := []\<rparr>) \<and>
   disk_delete_document sample_cfg (sample_delete_env\<lparr>delete_error := True\<rparr>) ''1'' one_row =
     (Some (Response 500 (Msg False ''Failed to delete document from database'')),
      dangling_record) \<and>
   disk_delete_document sample_cfg (sample_delete_env\<lparr>unlink_throws := True\<rparr>) ''1'' one_row =
     (None, one_row)"
proof -
  let ?row = "\<lparr>row_id = 1, row_filename = ''a.pdf'',
           filepath = ''/srv/uploads/1700000000000-1-a.pdf'', row_filesize = 2,
           row_created_at = SqlDatetime 10\<rparr>"
  have f1: "find (\<lambda>r. text_as_id sample_cfg ''1'' = Some (row_id r)) (rows dangling_record) = Some ?row"
    by (simp add: dangling_record_eq sample_cfg_sel parseInt_digit_1)
  have f2: "find (\<lambda>r. text_as_id sample_cfg ''1'' = Some (row_id r)) (rows one_row) = Some ?row"
    by (simp add: one_row_eq sample_cfg_sel parseInt_digit_1)
  have e: "\<not> select_error sample_delete_env"
    "\<not> select_error (sample_delete_env\<lparr>delete_error := True\<rparr>)"
    "\<not> select_error (sample_delete_env\<lparr>unlink_throws := True\<rparr>)"
    by (simp_all add: sample_delete_env_def)
  note a = delete_blob_first_and_idempotent [OF e(1) f1]
    and b = delete_blob_first_and_idempotent [OF e(1) f2]
    and c = delete_blob_first_and_idempotent [OF e(2) f2]
    and d = delete_blob_first_and_idempotent [OF e(3) f2]
  have fs1: "files dangling_record ''/srv/uploads/1700000000000-1-a.pdf'' = None"
    by (simp add: dangling_record_eq)
  have fs2: "files one_row ''/srv/uploads/1700000000000-1-a.pdf'' = Some [37, 80]"
    by (simp add: one_row_eq)
  have r1: "filter (\<lambda>r. text_as_id sample_cfg ''1'' \<noteq> Some (row_id r)) (rows dangling_record) = []"
    by (simp add: dangling_record_eq sample_cfg_sel parseInt_digit_1)
  have r2: "filter (\<lambda>r. text_as_id sample_cfg ''1'' \<noteq> Some (row_id r)) (rows one_row) = []"
    by (simp add: one_row_eq sample_cfg_sel parseInt_digit_1)
  have dr: "one_row\<lparr>files := (files one_row)(''/srv/uploads/1700000000000-1-a.pdf'' := None)\<rparr>
      = dangling_record"
    by (simp add: one_row_eq dangling_record_eq)
  from a b c d f1 fs1 fs2 r1 r2 dr show ?thesis
    by (simp add: sample_delete_env_def)
qed

text \<open>
  C8, as stated, fails on the sqlite variant. On a state whose only row has lost its
  file, a download of the unknown id 7 and a download of the known id 1 both answer
  404, but with different bodies: \<open>Document not found\<close> against
  \<open>File not found on disk\<close>. And a failure response can carry internal error text:
  when the disk storage cannot open its destination file, the error middleware sends
  the message of that error, path included, in the 500 response.
\<close>

theorem not_found_responses_differ_counterexample:
  "disk_get_document sample_cfg False ''7'' dangling_record =
     Some (Response 404 (Msg False ''Document not found'')) \<and>
   disk_get_document sample_cfg False ''1'' dangling_record =
     Some (Response 404 (Msg False ''File not found on disk'')) \<and>
   disk_get_document sample_cfg False ''7'' dangling_record \<noteq>
     disk_get_document sample_cfg False ''1'' dangling_record \<and>
   fst (disk_post_upload sample_cfg
          ((sample_upload_env ''1700000000001-2'' 20)\<lparr>write_error := Some eacces_message\<rparr>)
          (Some (sample_pdf ''b.pdf'' [68, 70])) one_row) =
     Response 500 (Msg False eacces_message)"
  by (simp add: dangling_record_eq disk_get_document_def sample_cfg_sel parseInt_digit_1
      parseInt_digit_7 disk_post_upload_def multer_disk_def sample_pdf_def fileFilter_def
      sample_upload_env_def eacces_message_def)

text \<open>
  C8, amended. In the sqlite variant the two not-found cases of a download have the
  same status and the same envelope, and differ in the message: an unknown id answers
  404 with \<open>success = false\<close> and the message \<open>Document not found\<close>; a known id whose
  file is missing answers 404 with \<open>success = false\<close> and the message
  \<open>File not found on disk\<close>. Every failure response that a route handler of either
  variant builds itself carries one of seven fixed messages, none of which depends on
  the request, the record or a path. A download handler that throws builds no
  response; what the in-memory one throws is the error of the refused header.
\<close>

theorem not_found_and_handler_failures:
  "(\<not> err \<and> find (\<lambda>r. text_as_id cfg s = Some (row_id r)) (rows st) = None \<longrightarrow>
      disk_get_document cfg err s st = Some (Response 404 (Msg False ''Document not found''))) \<and>
   (\<not> err \<and> find (\<lambda>r. text_as_id cfg s = Some (row_id r)) (rows st) = Some row \<and>
    files st (filepath row) = None \<longrightarrow>
      disk_get_document cfg err s st =
        Some (Response 404 (Msg False ''File not found on disk''))) \<and>
   (case disk_get_document cfg err s st of
      None \<Rightarrow> True | Some resp \<Rightarrow> fixed_failure resp) \<and>
   fixed_failure (disk_get_documents err st) \<and>
   (case fst (disk_delete_document cfg denv s st) of
      None \<Rightarrow> True | Some resp \<Rightarrow> fixed_failure resp) \<and>
   fixed_failure (fst (disk_upload_handler uenv dfile st)) \<and>
   fixed_failure (fst (upload_handler now mfile mst)) \<and>
   fixed_failure (get_documents mst) \<and>
   (case get_document_handler s mst of
      Inl e \<Rightarrow> e = invalid_header_error | Inr resp \<Rightarrow> fixed_failure resp) \<and>
   fixed_failure (fst (delete_document s mst))"
  by (simp add: disk_get_document_def disk_get_documents_def disk_delete_document_def
      disk_upload_handler_def upload_handler_def get_documents_def get_document_handler_def
      delete_document_def handler_messages_def Let_def split: option.split)

theorem not_found_and_handler_failures_witness:
  "find (\<lambda>r. text_as_id sample_cfg ''7'' = Some (row_id r)) (rows dangling_record) = None \<and>
   disk_get_document sample_cfg False ''7'' dangling_record =
     Some (Response 404 (Msg False ''Document not found'')) \<and>
   files dangling_record ''/srv/uploads/1700000000000-1-a.pdf'' = None \<and>
   disk_get_document sample_cfg False ''1'' dangling_record =
     Some (Response 404 (Msg False ''File not found on disk'')) \<and>
   fixed_failure (Response 404 (Msg False ''File not found on disk''))"
proof -
  let ?row = "\<lparr>row_id = 1, row_filename = ''a.pdf'',
           filepath = ''/srv/uploads/1700000000000-1-a.pdf'', row_filesize = 2,
           row_created_at = SqlDatetime 10\<rparr>"
  have f7: "find (\<lambda>r. text_as_id sample_cfg ''7'' = Some (row_id r)) (rows dangling_record) = None"
    by (simp add: dangling_record_eq sample_cfg_sel parseInt_digit_7)
  have f1: "find (\<lambda>r. text_as_id sample_cfg ''1'' = Some (row_id r)) (rows dangling_record) = Some ?row"
    by (simp add: dangling_record_eq sample_cfg_sel parseInt_digit_1)
  have fs: "files dangling_record ''/srv/uploads/1700000000000-1-a.pdf'' = None"
    by (simp add: dangling_record_eq)
  from not_found_and_handler_failures [of False sample_cfg "''7''" dangling_record]
  have a: "disk_get_document sample_cfg False ''7'' dangling_record =
     Some (Response 404 (Msg False ''Document not found''))"
    using f7 by simp
  from not_found_and_handler_failures [of False sample_cfg "''1''" dangling_record ?row]
  have b: "disk_get_document sample_cfg False ''1'' dangling_record =
     Some (Response 404 (Msg False ''File not found on disk''))"
    using f1 fs by simp
  from a b f7 fs show ?thesis by (simp add: handler_messages_def)
qed

text \<open>
  C1, as stated, fails: a listed id does not always download as the bytes that were
  uploaded.
  \<^item> Sqlite variant, after a delete whose \<^verbatim>\<open>DELETE\<close> statement failed: the file is
    gone, the row is still listed, and the download answers 404.
  \<^item> Sqlite variant, after a second upload that got the storage name of the first (same
    millisecond, same random number, same file name): the download of the first id
    sends the bytes of the second upload.
  \<^item> A document whose name holds a line feed: \<^verbatim>\<open>setHeader\<close> throws, and the download
    answers 500 in the in-memory variant and nothing in the sqlite variant.
  \<^item> Under a negative \<^verbatim>\<open>MAX_FILE_SIZE\<close> an upload succeeds with an empty buffer, which
    is what the download sends.
\<close>

theorem download_not_identity_counterexample:
  "snd (disk_serve sample_cfg
          [Disk_upload (sample_upload_env ''1700000000000-1'' 10)
             (Some (sample_pdf ''a.pdf'' [37, 80])),
           Disk_delete (sample_delete_env\<lparr>delete_error := True\<rparr>) ''1'']
          (disk_init Map.empty)) = dangling_record \<and>
   listed_ids (disk_get_documents False dangling_record) = [1] \<and>
   disk_get_document sample_cfg False ''1'' dangling_record =
     Some (Response 404 (Msg False ''File not found on disk'')) \<and>
   listed_ids (disk_get_documents False overwritten_row) = [1, 2] \<and>
   disk_get_document sample_cfg False ''1'' overwritten_row =
     Some (Response 200 (SendFile (download_headers ''a.pdf'') [68, 70])) \<and>
   fst (post_upload None 10 (Some (sample_pdf line_feed_name [37, 80])) init_state) =
     Response 200 (UploadedDoc True ''File uploaded successfully''
       \<lparr>json_id = 1, json_filename = line_feed_name, json_filesize = 2,
        json_created_at = IsoString 10\<rparr>) \<and>
   listed_ids (get_documents line_feed_document) = [1] \<and>
   get_document ''1'' line_feed_document = Response 500 (Msg False invalid_header_message) \<and>
   disk_get_document sample_cfg False ''1''
     (snd (disk_post_upload sample_cfg (sample_upload_env ''1700000000000-1'' 10)
             (Some (sample_pdf line_feed_name [37, 80])) (disk_init Map.empty))) = None \<and>
   fst (post_upload (Some ''-1'') 10 (Some (sample_pdf ''a.pdf'' [37, 80])) init_state) =
     Response 200 (UploadedDoc True ''File uploaded successfully''
       \<lparr>json_id = 1, json_filename = ''a.pdf'', json_filesize = 0,
        json_created_at = IsoString 10\<rparr>) \<and>
   listed_ids (get_documents truncated_document) = [1] \<and>
   get_document ''1'' truncated_document =
     Response 200 (SendFile (download_headers ''a.pdf'') [])"
proof -
  have a: "snd (disk_serve sample_cfg
          [Disk_upload (sample_upload_env ''1700000000000-1'' 10)
             (Some (sample_pdf ''a.pdf'' [37, 80])),
           Disk_delete (sample_delete_env\<lparr>delete_error := True\<rparr>) ''1'']
          (disk_init Map.empty)) = dangling_record"
    by (simp add: dangling_record_def one_row_def split_beta)
  have b: "listed_ids (disk_get_documents False dangling_record) = [1]"
    "disk_get_document sample_cfg False ''1'' dangling_record =
       Some (Response 404 (Msg False ''File not found on disk''))"
    by (simp_all add: dangling_record_eq disk_get_documents_def disk_get_document_def
        sample_cfg_sel parseInt_digit_1)
  have c: "listed_ids (disk_get_documents False overwritten_row) = [1, 2]"
    "disk_get_document sample_cfg False ''1'' overwritten_row =
       Some (Response 200 (SendFile (download_headers ''a.pdf'') [68, 70]))"
    by (simp_all add: overwritten_row_eq disk_get_documents_def disk_get_document_def
        sample_cfg_sel parseInt_digit_1 setHeader_throws_content_disposition
        invalid_header_char_def)
  have d: "fst (post_upload None 10 (Some (sample_pdf line_feed_name [37, 80])) init_state) =
     Response 200 (UploadedDoc True ''File uploaded successfully''
       \<lparr>json_id = 1, json_filename = line_feed_name, json_filesize = 2,
        json_created_at = IsoString 10\<rparr>)"
    by (simp add: line_feed_name_def post_upload_sample init_state_def)
  have e: "listed_ids (get_documents line_feed_document) = [1]"
    "get_document ''1'' line_feed_document = Response 500 (Msg False invalid_header_message)"
    by (simp_all add: line_feed_document_eq get_documents_def to_json_def get_document_def
        get_document_handler_def parseInt_digit_1 setHeader_throws_content_disposition
        line_feed_name_def invalid_header_char_def invalid_header_error_def
        invalid_header_message_def)
  have f: "disk_get_document sample_cfg False ''1''
     (snd (disk_post_upload sample_cfg (sample_upload_env ''1700000000000-1'' 10)
             (Some (sample_pdf line_feed_name [37, 80])) (disk_init Map.empty))) = None"
    by (simp add: line_feed_name_def disk_post_upload_sample disk_init_def
        disk_get_document_def sample_cfg_sel parseInt_digit_1
        setHeader_throws_content_disposition invalid_header_char_def)
  have g: "fst (post_upload (Some ''-1'') 10 (Some (sample_pdf ''a.pdf'' [37, 80])) init_state) =
     Response 200 (UploadedDoc True ''File uploaded successfully''
       \<lparr>json_id = 1, json_filename = ''a.pdf'', json_filesize = 0,
        json_created_at = IsoString 10\<rparr>)"
    by (simp add: post_upload_def multer_memory_def sample_pdf_def fileFilter_def
        fileSize_limit_minus_1 busboy_file_def upload_handler_def to_json_def init_state_def)
  have h: "listed_ids (get_documents truncated_document) = [1]"
    "get_document ''1'' truncated_document =
       Response 200 (SendFile (download_headers ''a.pdf'') [])"
    by (simp_all add: truncated_document_eq get_documents_def to_json_def get_document_def
        get_document_handler_def parseInt_digit_1 setHeader_throws_content_disposition
        invalid_header_char_def)
  from a b c d e f g h show ?thesis by simp
qed

text \<open>
  C1, amended. Upload followed by download is the identity on the file content when
  the configured size limit is positive and the file name holds no character that
  \<^verbatim>\<open>setHeader\<close> refuses. In the in-memory variant: from the initial state, after any
  requests, a successful upload of such a file, and any further requests, if the id
  that the upload reported is still in the list, then the download of an id string
  that parses to it sends exactly the bytes (and the name) that were uploaded. In the
  sqlite variant the same holds in normal operation (every storage name is new among
  the live rows, and no \<^verbatim>\<open>DELETE\<close> statement fails after its file was unlinked), for
  an id text that the engine takes for that id and a lookup that does not fail.
\<close>

theorem download_returns_uploaded_content:
  "(serve env reqs0 init_state = (rs0, st0) \<and> 0 < fileSize_limit env \<and>
    post_upload env now (Some file) st0 = (Response 200 (UploadedDoc ok msg d), st1) \<and>
    serve env reqs1 st1 = (rs1, st2) \<and>
    json_id d \<in> set (listed_ids (get_documents st2)) \<and>
    parseInt s = Some (json_id d) \<and>
    \<not> setHeader_throws (content_disposition (part_filename file)) \<longrightarrow>
      get_document s st2 =
        Response 200 (SendFile (download_headers (part_filename file)) (part_data file))) \<and>
   (disk_serve cfg dreqs0 (disk_init fs) = (drs0, dst0) \<and> nominal cfg dreqs0 (disk_init fs) \<and>
    0 < fileSize_limit (max_file_size cfg) \<and>
    nominal_step cfg (Disk_upload uenv (Some file)) dst0 \<and>
    disk_post_upload cfg uenv (Some file) dst0 = (Response 200 (UploadedDoc dok dmsg dd), dst1) \<and>
    disk_serve cfg dreqs1 dst1 = (drs1, dst2) \<and> nominal cfg dreqs1 dst1 \<and>
    json_id dd \<in> set (listed_ids (disk_get_documents False dst2)) \<and>
    text_as_id cfg t = Some (json_id dd) \<and>
    \<not> setHeader_throws (content_disposition (part_filename file)) \<longrightarrow>
      disk_get_document cfg False t dst2 =
        Some (Response 200
          (SendFile (download_headers (part_filename file)) (part_data file))))"
  using download_after_upload_in_memory [of env reqs0 rs0 st0 now "file" ok msg d st1 reqs1 rs1 st2 s]
    download_after_upload_disk [of cfg dreqs0 fs drs0 dst0 uenv "file" dok dmsg dd dst1 dreqs1 drs1
      dst2 t]
  by blast

theorem download_returns_uploaded_content_witness:
  "get_document ''2''
     (snd (serve None later_requests
        (snd (post_upload None 20 (Some (sample_pdf ''b.pdf'' [68, 70])) one_document)))) =
     Response 200 (SendFile (download_headers ''b.pdf'') [68, 70]) \<and>
   disk_get_document sample_cfg False ''2''
     (snd (disk_serve sample_cfg later_disk_requests
        (snd (disk_post_upload sample_cfg (sample_upload_env ''1700000000001-2'' 20)
               (Some (sample_pdf ''b.pdf'' [68, 70])) one_row)))) =
     Some (Response 200 (SendFile (download_headers ''b.pdf'') [68, 70]))"
proof -
  let ?file = "sample_pdf ''b.pdf'' [68, 70]"
  let ?reqs0 = "[POST_upload 10 (Some (sample_pdf ''a.pdf'' [37, 80]))]"
  let ?d = "\<lparr>json_id = 2, json_filename = ''b.pdf'', json_filesize = 2,
             json_created_at = IsoString 20\<rparr>"
  let ?st1 = "snd (post_upload None 20 (Some ?file) one_document)"
  let ?st2 = "snd (serve None later_requests ?st1)"
  have st2: "?st2 =
     \<lparr>documents =
        [\<lparr>doc_id = 2, filename = ''b.pdf'', filesize = 2, buffer = [68, 70],
          created_at = IsoString 20\<rparr>,
         \<lparr>doc_id = 3, filename = ''c.pdf'', filesize = 2, buffer = [70, 1],
          created_at = IsoString 30\<rparr>],
      nextId = 4\<rparr>"
    by (simp only: two_documents_eq)
      (simp add: later_requests_def post_upload_sample delete_document_def
        parseInt_digit_1 splice1_def)
  have m1: "serve None ?reqs0 init_state =
      ([fst (post_upload None 10 (Some (sample_pdf ''a.pdf'' [37, 80])) init_state)], one_document)"
    by (simp add: one_document_def split_beta)
  have m2: "post_upload None 20 (Some ?file) one_document =
      (Response 200 (UploadedDoc True ''File uploaded successfully'' ?d), ?st1)"
    by (simp add: post_upload_sample one_document_eq)
  have m3: "serve None later_requests ?st1 = (fst (serve None later_requests ?st1), ?st2)"
    by simp
  have m4: "json_id ?d \<in> set (listed_ids (get_documents ?st2))"
    by (simp add: st2 get_documents_def to_json_def)
  have m5: "parseInt ''2'' = Some (json_id ?d)" by (simp add: parseInt_digit_2)
  have m6: "0 < fileSize_limit None" "0 < fileSize_limit (max_file_size sample_cfg)"
    by (simp_all add: fileSize_limit_default sample_cfg_sel)
  have m7: "\<not> setHeader_throws (content_disposition (part_filename ?file))"
    by (simp add: sample_pdf_def setHeader_throws_content_disposition invalid_header_char_def)
  let ?dreqs0 = "[Disk_upload (sample_upload_env ''1700000000000-1'' 10)
      (Some (sample_pdf ''a.pdf'' [37, 80]))]"
  let ?uenv = "sample_upload_env ''1700000000001-2'' 20"
  let ?dd = "\<lparr>json_id = 2, json_filename = ''b.pdf'', json_filesize = 2,
              json_created_at = IsoString 20007\<rparr>"
  let ?dst1 = "snd (disk_post_upload sample_cfg ?uenv (Some ?file) one_row)"
  let ?dst2 = "snd (disk_serve sample_cfg later_disk_requests ?dst1)"
  have dst2: "rows ?dst2 =
        [\<lparr>row_id = 2, row_filename = ''b.pdf'',
          filepath = ''/srv/uploads/1700000000001-2-b.pdf'', row_filesize = 2,
          row_created_at = SqlDatetime 20\<rparr>,
         \<lparr>row_id = 3, row_filename = ''c.pdf'',
          filepath = ''/srv/uploads/1700000000002-3-c.pdf'', row_filesize = 2,
          row_created_at = SqlDatetime 30\<rparr>]"
    by (simp only: two_rows_eq)
      (simp add: later_disk_requests_def disk_post_upload_sample
        disk_delete_document_def sample_cfg_sel parseInt_digit_1 sample_delete_env_def
        disk_get_documents_def)
  have d1: "disk_serve sample_cfg ?dreqs0 (disk_init Map.empty) =
      ([Some (fst (disk_post_upload sample_cfg (sample_upload_env ''1700000000000-1'' 10)
          (Some (sample_pdf ''a.pdf'' [37, 80])) (disk_init Map.empty)))], one_row)"
    by (simp add: one_row_def split_beta)
  have d2: "nominal sample_cfg ?dreqs0 (disk_init Map.empty)"
    by (simp add: disk_init_def)
  have d3: "nominal_step sample_cfg (Disk_upload ?uenv (Some ?file)) one_row"
    by (simp add: one_row_eq storage_path_def storage_filename_def sample_cfg_sel
        sample_upload_env_def sample_pdf_def)
  have d4: "disk_post_upload sample_cfg ?uenv (Some ?file) one_row =
      (Response 200 (UploadedDoc True ''File uploaded successfully'' ?dd), ?dst1)"
    by (simp add: disk_post_upload_sample one_row_eq)
  have d5: "disk_serve sample_cfg later_disk_requests ?dst1 =
      (fst (disk_serve sample_cfg later_disk_requests ?dst1), ?dst2)"
    by simp
  have d6: "nominal sample_cfg later_disk_requests ?dst1"
    by (simp only: two_rows_eq)
      (simp add: later_disk_requests_def disk_post_upload_sample
        storage_path_def storage_filename_def sample_cfg_sel
        sample_upload_env_def sample_pdf_def sample_delete_env_def)
  have d7: "json_id ?dd \<in> set (listed_ids (disk_get_documents False ?dst2))"
    by (simp add: dst2 disk_get_documents_def)
  have d8: "text_as_id sample_cfg ''2'' = Some (json_id ?dd)"
    by (simp add: sample_cfg_sel parseInt_digit_2)
  note T = download_returns_uploaded_content
    [of None ?reqs0
      "[fst (post_upload None 10 (Some (sample_pdf ''a.pdf'' [37, 80])) init_state)]"
      one_document 20 ?file True "''File uploaded successfully''" ?d ?st1
      later_requests "fst (serve None later_requests ?st1)" ?st2 "''2''"
      sample_cfg ?dreqs0 Map.empty
      "[Some (fst (disk_post_upload sample_cfg (sample_upload_env ''1700000000000-1'' 10)
          (Some (sample_pdf ''a.pdf'' [37, 80])) (disk_init Map.empty)))]"
      one_row ?uenv True "''File uploaded successfully''" ?dd ?dst1
      later_disk_requests "fst (disk_serve sample_cfg later_disk_requests ?dst1)" ?dst2 "''2''"]
  from T m1 m2 m3 m4 m5 m6 m7 have a: "get_document ''2'' ?st2 =
      Response 200 (SendFile (download_headers (part_filename ?file)) (part_data ?file))"
    by blast
  from T d1 d2 d3 d4 d5 d6 d7 d8 m6 m7 have b: "disk_get_document sample_cfg False ''2'' ?dst2 =
      Some (Response 200 (SendFile (download_headers (part_filename ?file)) (part_data ?file)))"
    by blast
  have "part_filename ?file = ''b.pdf''" "part_data ?file = [68, 70]"
    by (simp_all add: sample_pdf_def)
  with a b show ?thesis by simp
qed

text \<open>
  C2. After a successful upload the response is to carry the full record, its
  \<open>created_at\<close> included. The in-memory variant does so: the response and the list
  show the same creation time. The sqlite variant does not: its handler answers with
  its own \<^verbatim>\<open>new Date().toISOString()\<close>, while the row gets the engine's
  \<^verbatim>\<open>CURRENT_TIMESTAMP\<close>, a text of another format, which is what the list shows.
  Evaluated on one upload into an empty store, in each variant:
\<close>

theorem sqlite_upload_response_created_at:
  "post_upload None 10 (Some (sample_pdf ''a.pdf'' [37, 80])) init_state =
     (Response 200 (UploadedDoc True ''File uploaded successfully''
        \<lparr>json_id = 1, json_filename = ''a.pdf'', json_filesize = 2,
         json_created_at = IsoString 10\<rparr>), one_document) \<and>
   get_documents one_document =
     Response 200 (DocList True
       [\<lparr>json_id = 1, json_filename = ''a.pdf'', json_filesize = 2,
         json_created_at = IsoString 10\<rparr>]) \<and>
   disk_post_upload sample_cfg (sample_upload_env ''1700000000000-1'' 10)
     (Some (sample_pdf ''a.pdf'' [37, 80])) (disk_init Map.empty) =
     (Response 200 (UploadedDoc True ''File uploaded successfully''
        \<lparr>json_id = 1, json_filename = ''a.pdf'', json_filesize = 2,
         json_created_at = IsoString 10007\<rparr>), one_row) \<and>
   disk_get_documents False one_row =
     Response 200 (RowList True
       [\<lparr>row_id = 1, row_filename = ''a.pdf'',
         filepath = ''/srv/uploads/1700000000000-1-a.pdf'', row_filesize = 2,
         row_created_at = SqlDatetime 10\<rparr>]) \<and>
   IsoString 10007 \<noteq> SqlDatetime 10"
  by (simp add: one_row_eq one_document_eq disk_post_upload_sample post_upload_sample
      disk_init_def init_state_def disk_get_documents_def get_documents_def to_json_def)

text \<open>
  C4. For an id that is absent from the store, download and delete both answer the
  not-found failure 404 (a response, not a fault), delete changes nothing, and the list
  does not show the id. An id is absent after a successful delete of it, and stays
  absent whatever requests follow, since ids are not assigned again; an id that no
  upload was ever given is absent too. This holds in both variants; in the sqlite
  variant the 404 is the answer whenever the lookup query itself does not fail.
\<close>

theorem absent_id_not_found:
  "(absent s st \<longrightarrow>
      get_document s st = Response 404 (Msg False ''Document not found'') \<and>
      delete_document s st = (Response 404 (Msg False ''Document not found''), st) \<and>
      (\<forall>k. parseInt s = Some k \<longrightarrow> k \<notin> set (listed_ids (get_documents st)))) \<and>
   (serve env reqs0 init_state = (rs0, st0) \<and>
    delete_document s st0 = (Response 200 b, st1) \<and>
    serve env reqs1 st1 = (rs1, st2) \<longrightarrow> absent s st2) \<and>
   (serve env reqs0 init_state = (rs0, st0) \<and> parseInt s = Some k \<and>
    k \<notin> set (assigned_ids rs0) \<longrightarrow> absent s st0) \<and>
   (disk_absent cfg t dst \<longrightarrow>
      (\<not> err \<longrightarrow>
         disk_get_document cfg err t dst =
           Some (Response 404 (Msg False ''Document not found''))) \<and>
      (\<not> select_error denv \<longrightarrow>
         disk_delete_document cfg denv t dst =
           (Some (Response 404 (Msg False ''Document not found'')), dst)) \<and>
      (\<forall>k. text_as_id cfg t = Some k \<longrightarrow>
         k \<notin> set (listed_ids (disk_get_documents False dst)))) \<and>
   (disk_serve cfg dreqs0 (disk_init fs) = (drs0, dst0) \<and>
    disk_delete_document cfg denv t dst0 = (Some (Response 200 db), dst1) \<and>
    disk_serve cfg dreqs1 dst1 = (drs1, dst2) \<longrightarrow> disk_absent cfg t dst2) \<and>
   (disk_serve cfg dreqs0 (disk_init fs) = (drs0, dst0) \<and> text_as_id cfg t = Some k \<and>
    k \<notin> set (disk_assigned_ids drs0) \<longrightarrow> disk_absent cfg t dst0)"
proof (intro conjI impI allI)
  assume a: "absent s st"
  then have n: "\<forall>d \<in> set (documents st). Some (doc_id d) \<noteq> parseInt s"
    by (simp add: absent_iff)
  from get_document_absent [OF n]
  show "get_document s st = Response 404 (Msg False ''Document not found'')"
    by (simp add: not_found_def)
  from delete_document_absent [OF n]
  show "delete_document s st = (Response 404 (Msg False ''Document not found''), st)"
    by (simp add: not_found_def)
  fix k assume "parseInt s = Some k"
  with n show "k \<notin> set (listed_ids (get_documents st))"
    by (auto simp: get_documents_def to_json_def)
next
  assume "serve env reqs0 init_state = (rs0, st0) \<and>
    delete_document s st0 = (Response 200 b, st1) \<and> serve env reqs1 st1 = (rs1, st2)"
  then show "absent s st2" using absent_after_delete by blast
next
  assume "serve env reqs0 init_state = (rs0, st0) \<and> parseInt s = Some k \<and>
    k \<notin> set (assigned_ids rs0)"
  then show "absent s st0" using absent_never_assigned by blast
next
  assume a: "disk_absent cfg t dst"
  then have n: "\<forall>r \<in> set (rows dst). text_as_id cfg t \<noteq> Some (row_id r)"
    by (simp add: disk_absent_iff)
  show "disk_get_document cfg err t dst =
      Some (Response 404 (Msg False ''Document not found''))"
    if "\<not> err"
    using disk_get_document_absent [OF that n] by (simp add: not_found_def)
  show "disk_delete_document cfg denv t dst =
      (Some (Response 404 (Msg False ''Document not found'')), dst)"
    if "\<not> select_error denv"
    using disk_delete_document_absent [OF that n] by (simp add: not_found_def)
  fix k assume "text_as_id cfg t = Some k"
  with n show "k \<notin> set (listed_ids (disk_get_documents False dst))"
    by (auto simp: disk_get_documents_def set_order_by_created_at_desc)
next
  assume "disk_serve cfg dreqs0 (disk_init fs) = (drs0, dst0) \<and>
    disk_delete_document cfg denv t dst0 = (Some (Response 200 db), dst1) \<and>
    disk_serve cfg dreqs1 dst1 = (drs1, dst2)"
  then show "disk_absent cfg t dst2" using disk_absent_after_delete by blast
next
  assume "disk_serve cfg dreqs0 (disk_init fs) = (drs0, dst0) \<and> text_as_id cfg t = Some k \<and>
    k \<notin> set (disk_assigned_ids drs0)"
  then show "disk_absent cfg t dst0" using disk_absent_never_assigned by blast
qed

theorem absent_id_not_found_witness:
  "get_document ''1'' after_delete = Response 404 (Msg False ''Document not found'') \<and>
   delete_document ''1'' after_delete =
     (Response 404 (Msg False ''Document not found''), after_delete) \<and>
   listed_ids (get_documents after_delete) = [2] \<and>
   get_document ''999'' one_document = Response 404 (Msg False ''Document not found'') \<and>
   delete_document ''999'' one_document =
     (Response 404 (Msg False ''Document not found''), one_document) \<and>
   disk_get_document sample_cfg False ''1'' disk_after_delete =
     Some (Response 404 (Msg False ''Document not found'')) \<and>
   disk_delete_document sample_cfg sample_delete_env ''1'' disk_after_delete =
     (Some (Response 404 (Msg False ''Document not found'')), disk_after_delete) \<and>
   listed_ids (disk_get_documents False disk_after_delete) = [2] \<and>
   disk_get_document sample_cfg False ''999'' one_row =
     Some (Response 404 (Msg False ''Document not found''))"
proof -
  let ?reqs0 = "[POST_upload 10 (Some (sample_pdf ''a.pdf'' [37, 80]))]"
  let ?rs0 = "[fst (post_upload None 10 (Some (sample_pdf ''a.pdf'' [37, 80])) init_state)]"
  let ?reqs1 = "[POST_upload 30 (Some (sample_pdf ''c.pdf'' [70, 1]))]"
  let ?st1 = "snd (delete_document ''1'' one_document)"
  let ?dreqs0 = "[Disk_upload (sample_upload_env ''1700000000000-1'' 10)
      (Some (sample_pdf ''a.pdf'' [37, 80]))]"
  let ?drs0 = "[Some (fst (disk_post_upload sample_cfg (sample_upload_env ''1700000000000-1'' 10)
          (Some (sample_pdf ''a.pdf'' [37, 80])) (disk_init Map.empty)))]"
  let ?dreqs1 = "[Disk_upload (sample_upload_env ''1700000000002-3'' 30)
      (Some (sample_pdf ''c.pdf'' [70, 1]))]"
  let ?dst1 = "snd (disk_delete_document sample_cfg sample_delete_env ''1'' one_row)"
  have m1: "serve None ?reqs0 init_state = (?rs0, one_document)"
    by (simp add: one_document_def split_beta)
  have m2: "delete_document ''1'' one_document =
      (Response 200 (Msg True ''Document deleted successfully''), ?st1)"
    by (simp add: one_document_eq delete_document_def parseInt_digit_1)
  have m3: "serve None ?reqs1 ?st1 = (fst (serve None ?reqs1 ?st1), after_delete)"
    by (simp add: after_delete_def)
  have m4: "parseInt ''999'' = Some 999 \<and> 999 \<notin> set (assigned_ids ?rs0)"
    by (simp add: parseInt_999 assigned_ids_def post_upload_sample init_state_def)
  have d1: "disk_serve sample_cfg ?dreqs0 (disk_init Map.empty) = (?drs0, one_row)"
    by (simp add: one_row_def split_beta)
  have d2: "disk_delete_document sample_cfg sample_delete_env ''1'' one_row =
      (Some (Response 200 (Msg True ''Document deleted successfully'')), ?dst1)"
    by (simp add: one_row_eq disk_delete_document_def sample_cfg_sel parseInt_digit_1
        sample_delete_env_def)
  have d3: "disk_serve sample_cfg ?dreqs1 ?dst1 =
      (fst (disk_serve sample_cfg ?dreqs1 ?dst1), disk_after_delete)"
    by (simp add: disk_after_delete_def)
  have d4: "text_as_id sample_cfg ''999'' = Some 999 \<and> 999 \<notin> set (disk_assigned_ids ?drs0)"
    by (simp add: sample_cfg_sel parseInt_999 disk_assigned_ids_def disk_post_upload_sample
        disk_init_def)
  have e: "\<not> False" "\<not> select_error sample_delete_env"
    by (simp_all add: sample_delete_env_def)
  note T1 = absent_id_not_found
    [where s = "''1''" and st = after_delete and env = None and ?reqs0.0 = ?reqs0
      and ?rs0.0 = ?rs0 and ?st0.0 = one_document
      and b = "Msg True ''Document deleted successfully''" and ?st1.0 = ?st1
      and ?reqs1.0 = ?reqs1 and ?rs1.0 = "fst (serve None ?reqs1 ?st1)"
      and ?st2.0 = after_delete
      and cfg = sample_cfg and t = "''1''" and dst = disk_after_delete and err = False
      and denv = sample_delete_env and ?dreqs0.0 = ?dreqs0 and fs = Map.empty
      and ?drs0.0 = ?drs0 and ?dst0.0 = one_row
      and db = "Msg True ''Document deleted successfully''" and ?dst1.0 = ?dst1
      and ?dreqs1.0 = ?dreqs1 and ?drs1.0 = "fst (disk_serve sample_cfg ?dreqs1 ?dst1)"
      and ?dst2.0 = disk_after_delete]
  note T2 = absent_id_not_found
    [where s = "''999''" and st = one_document and env = None and ?reqs0.0 = ?reqs0
      and ?rs0.0 = ?rs0 and ?st0.0 = one_document and k = 999
      and cfg = sample_cfg and t = "''999''" and dst = one_row and err = False
      and ?dreqs0.0 = ?dreqs0 and fs = Map.empty
      and ?drs0.0 = ?drs0 and ?dst0.0 = one_row]
  from T1 m1 m2 m3 have a1: "absent ''1'' after_delete" by blast
  from T1 d1 d2 d3 have a2: "disk_absent sample_cfg ''1'' disk_after_delete" by blast
  from T2 m1 m4 have a3: "absent ''999'' one_document" by blast
  from T2 d1 d4 have a4: "disk_absent sample_cfg ''999'' one_row" by blast
  from T1 a1 have r1: "get_document ''1'' after_delete =
      Response 404 (Msg False ''Document not found'')"
    "delete_document ''1'' after_delete =
      (Response 404 (Msg False ''Document not found''), after_delete)" by blast+
  from T1 a2 e have r2: "disk_get_document sample_cfg False ''1'' disk_after_delete =
     Some (Response 404 (Msg False ''Document not found''))"
    "disk_delete_document sample_cfg sample_delete_env ''1'' disk_after_delete =
     (Some (Response 404 (Msg False ''Document not found'')), disk_after_delete)" by blast+
  from T2 a3 have r3: "get_document ''999'' one_document =
      Response 404 (Msg False ''Document not found'')"
    "delete_document ''999'' one_document =
      (Response 404 (Msg False ''Document not found''), one_document)" by blast+
  from T2 a4 e have r4: "disk_get_document sample_cfg False ''999'' one_row =
     Some (Response 404 (Msg False ''Document not found''))" by blast
  have l1: "listed_ids (get_documents after_delete) = [2]"
    by (simp add: after_delete_def one_document_eq delete_document_def parseInt_digit_1
        splice1_def post_upload_sample get_documents_def to_json_def)
  have l2: "listed_ids (disk_get_documents False disk_after_delete) = [2]"
    by (simp add: disk_after_delete_def one_row_eq disk_delete_document_def sample_cfg_sel
        parseInt_digit_1 sample_delete_env_def disk_post_upload_sample disk_get_documents_def)
  from r1 r2 r3 r4 l1 l2 show ?thesis by simp
qed

end
